theory Spec2Isabelle
  imports Complex_Main "HOL-Library.Sublist" "HOL-Library.Char_ord" "HOL-Library.List_Lexorder"
    "HOL-Library.Product_Lexorder"
begin

section \<open>Python values\<close>

text \<open>
  The dictionaries handled by the program (raw job records, search filters) hold
  Python values. The embedding covers \<open>None\<close>, booleans, integers, floats and
  strings. A string is a list of characters; a HOL character stands for a code point
  below 256, on which \<open>str.lower\<close> and \<open>str.strip\<close> are written out below.
  A float is the real number it denotes, or not-a-number (the value pandas puts in an
  empty cell); the two infinities are not covered.
\<close>

datatype exn = ValueError | TypeError | OverflowError | AttributeError | KeyError
  | ZeroDivisionError

datatype pyfloat = Fin real | NaN

datatype pyval = PNone | PBool bool | PInt int | PFloat pyfloat | PStr string

type_synonym pydict = "string \<rightharpoonup> pyval"

text \<open>Truth value testing, as \<open>if x:\<close> and \<open>not x\<close> do it.\<close>

fun truthy :: "pyval \<Rightarrow> bool" where
  "truthy PNone = False"
| "truthy (PBool b) = b"
| "truthy (PInt i) = (i \<noteq> 0)"
| "truthy (PFloat f) = (f \<noteq> Fin 0)"
| "truthy (PStr s) = (s \<noteq> [])"

text \<open>\<open>d.get(k)\<close>, \<open>d.get(k, default)\<close> and \<open>d[k]\<close>.\<close>

definition dict_get :: "pydict \<Rightarrow> string \<Rightarrow> pyval" where
  "dict_get d k = (case d k of None \<Rightarrow> PNone | Some v \<Rightarrow> v)"

definition dict_get_default :: "pydict \<Rightarrow> string \<Rightarrow> pyval \<Rightarrow> pyval" where
  "dict_get_default d k dflt = (case d k of None \<Rightarrow> dflt | Some v \<Rightarrow> v)"

definition dict_index :: "pydict \<Rightarrow> string \<Rightarrow> exn + pyval" where
  "dict_index d k = (case d k of None \<Rightarrow> Inl KeyError | Some v \<Rightarrow> Inr v)"

subsection \<open>String methods\<close>

text \<open>
  \<open>str.lower\<close> on code points below 256: the letters A to Z and the Latin-1 capitals
  (0xC0 to 0xDE, without the multiplication sign 0xD7) move up by 32.
\<close>

definition lower_char :: "char \<Rightarrow> char" where
  "lower_char c = (let n = (of_char c :: nat) in
     if (65 \<le> n \<and> n \<le> 90) \<or> (192 \<le> n \<and> n \<le> 222 \<and> n \<noteq> 215)
     then char_of (n + 32) else c)"

definition py_lower :: "string \<Rightarrow> string" where
  "py_lower s = map lower_char s"

text \<open>
  \<open>str.upper\<close> is only applied to the sort direction, which is then compared with
  \<open>ASC\<close> and \<open>DESC\<close>; the small letters a to z and the Latin-1 small letters move
  down by 32 (the sharp s, the micro sign and y with diaeresis have no capital below 256
  and never occur in the two words compared with).
\<close>

definition upper_char :: "char \<Rightarrow> char" where
  "upper_char c = (let n = (of_char c :: nat) in
     if (97 \<le> n \<and> n \<le> 122) \<or> (224 \<le> n \<and> n \<le> 254 \<and> n \<noteq> 247)
     then char_of (n - 32) else c)"

definition py_upper :: "string \<Rightarrow> string" where
  "py_upper s = map upper_char s"

text \<open>\<open>str.isspace\<close> for one code point below 256, and \<open>str.strip()\<close>.\<close>

definition isspace :: "char \<Rightarrow> bool" where
  "isspace c = (let n = (of_char c :: nat) in
     (9 \<le> n \<and> n \<le> 13) \<or> (28 \<le> n \<and> n \<le> 32) \<or> n = 133 \<or> n = 160)"

definition py_strip :: "string \<Rightarrow> string" where
  "py_strip s = rev (dropWhile isspace (rev (dropWhile isspace s)))"

text \<open>The operator \<open>needle in haystack\<close> on strings.\<close>

fun py_in :: "string \<Rightarrow> string \<Rightarrow> bool" where
  "py_in n [] = (n = [])"
| "py_in n (h # hs) = (prefix n (h # hs) \<or> py_in n hs)"

subsection \<open>Values of the SQL engine\<close>

text \<open>
  A stored value is NULL, an INTEGER, a REAL or a TEXT. A row gives every column of the
  table \<open>jobs\<close> its value.
\<close>

datatype sqlval = SNull | SInt int | SReal real | SText string

type_synonym row = "string \<Rightarrow> sqlval"

subsection \<open>Library functions\<close>

text \<open>
  The program calls functions of the Python library and of SQLite that the repository
  does not define and whose full definition is not needed here. They are taken as a
  parameter, one record for all of them:
  \<^item> \<open>float_of_str\<close>: \<open>float(s)\<close> for a string, \<open>None\<close> where Python raises ValueError;
  \<^item> \<open>nearest_float\<close>: the float nearest to an integer beyond \<open>2 ^ 53\<close>;
  \<^item> \<open>repr_float\<close>: \<open>str(x)\<close> for a finite float;
  \<^item> \<open>int_of_str\<close>: \<open>int(s)\<close> for a string, \<open>None\<close> where Python raises ValueError;
  \<^item> \<open>real_text\<close>: the text SQLite gives a REAL when it compares it with a TEXT column;
  \<^item> \<open>cutoff_date\<close>: \<open>(datetime.now() - timedelta(days=n)).strftime('%Y-%m-%d %H:%M:%S')\<close>,
    \<open>None\<close> where the date arithmetic raises OverflowError;
  \<^item> \<open>tie_rank\<close>: SQL leaves open the order of rows with equal sort keys; SQLite takes it
    from the plan it prepares for the text of the statement (a walk along an index,
    forwards or backwards, or a sort of the rows found). \<open>tie_rank w o t r\<close> is the rank
    of the row \<open>r\<close> of the table \<open>t\<close> among the rows with its sort key, in the result of
    the statement with WHERE clause \<open>w\<close> and ORDER BY clause \<open>o\<close>.
\<close>

record library =
  float_of_str :: "string \<Rightarrow> pyfloat option"
  nearest_float :: "int \<Rightarrow> real"
  repr_float :: "real \<Rightarrow> string"
  int_of_str :: "string \<Rightarrow> int option"
  real_text :: "real \<Rightarrow> string"
  cutoff_date :: "int \<Rightarrow> string option"
  tie_rank :: "string \<Rightarrow> string \<Rightarrow> row list \<Rightarrow> row \<Rightarrow> int"

text \<open>Decimal digits of an integer, as \<open>str\<close> prints them.\<close>

fun nat_digits :: "nat \<Rightarrow> string" where
  "nat_digits n =
     (if n < 10 then [char_of (48 + n)]
      else nat_digits (n div 10) @ [char_of (48 + n mod 10)])"

definition int_str :: "int \<Rightarrow> string" where
  "int_str i = (if i < 0 then CHR ''-'' # nat_digits (nat (- i)) else nat_digits (nat i))"

text \<open>\<open>str(v)\<close>.\<close>

fun py_str :: "library \<Rightarrow> pyval \<Rightarrow> string" where
  "py_str L PNone = ''None''"
| "py_str L (PBool b) = (if b then ''True'' else ''False'')"
| "py_str L (PInt i) = int_str i"
| "py_str L (PFloat NaN) = ''nan''"
| "py_str L (PFloat (Fin x)) = repr_float L x"
| "py_str L (PStr s) = s"

text \<open>
  \<open>float(v)\<close>. An integer up to \<open>2 ^ 53\<close> in magnitude is a float; a larger one is rounded
  to the nearest float, and one that rounds beyond the largest float
  (\<open>2 ^ 1024 - 2 ^ 970\<close> and above) raises OverflowError.
\<close>

definition float_overflow :: int where
  "float_overflow = 2 ^ 1024 - 2 ^ 970"

fun py_float :: "library \<Rightarrow> pyval \<Rightarrow> exn + pyfloat" where
  "py_float L PNone = Inl TypeError"
| "py_float L (PBool b) = Inr (Fin (if b then 1 else 0))"
| "py_float L (PInt i) =
     (if float_overflow \<le> \<bar>i\<bar> then Inl OverflowError
      else if \<bar>i\<bar> \<le> 2 ^ 53 then Inr (Fin (of_int i))
      else Inr (Fin (nearest_float L i)))"
| "py_float L (PFloat f) = Inr f"
| "py_float L (PStr s) =
     (case float_of_str L s of None \<Rightarrow> Inl ValueError | Some f \<Rightarrow> Inr f)"

text \<open>\<open>int(v)\<close>: a float is cut towards zero, not-a-number raises ValueError.\<close>

fun py_int :: "library \<Rightarrow> pyval \<Rightarrow> exn + int" where
  "py_int L PNone = Inl TypeError"
| "py_int L (PBool b) = Inr (if b then 1 else 0)"
| "py_int L (PInt i) = Inr i"
| "py_int L (PFloat NaN) = Inl ValueError"
| "py_int L (PFloat (Fin x)) = Inr (if x < 0 then \<lceil>x\<rceil> else \<lfloor>x\<rfloor>)"
| "py_int L (PStr s) =
     (case int_of_str L s of None \<Rightarrow> Inl ValueError | Some i \<Rightarrow> Inr i)"

section \<open>Location classifier (utils/validation.py, utils/constants.py)\<close>

definition SEA_COUNTRIES :: "(string \<times> string list) list" where
  "SEA_COUNTRIES =
    [(''Indonesia'', [''Indonesia'', ''Jakarta'', ''Surabaya'', ''Bandung'', ''Medan'']),
     (''Malaysia'', [''Malaysia'', ''Kuala Lumpur'', ''Penang'', ''Johor Bahru'', ''Selangor'']),
     (''Thailand'', [''Thailand'', ''Bangkok'', ''Chiang Mai'', ''Phuket'', ''Pattaya'']),
     (''Vietnam'', [''Vietnam'', ''Ho Chi Minh City'', ''Hanoi'', ''Da Nang'', ''Hue'']),
     (''Singapore'', [''Singapore''])]"

text \<open>The inner and the outer loop of \<open>validate_sea_country\<close>, each leaving at the first hit.\<close>

fun cities_loop :: "string list \<Rightarrow> string \<Rightarrow> bool" where
  "cities_loop [] location_lower = False"
| "cities_loop (city # cities) location_lower =
     (if py_in (py_lower city) location_lower then True
      else cities_loop cities location_lower)"

fun countries_loop :: "(string \<times> string list) list \<Rightarrow> string \<Rightarrow> bool" where
  "countries_loop [] location_lower = False"
| "countries_loop ((country, cities) # rest) location_lower =
     (if cities_loop cities location_lower then True
      else countries_loop rest location_lower)"

text \<open>
  \<open>validate_sea_country\<close>: a falsy argument gives \<open>False\<close>; a truthy one that is not a
  string has no method \<open>lower\<close>.
\<close>

definition validate_sea_country :: "pyval \<Rightarrow> exn + bool" where
  "validate_sea_country location =
     (if \<not> truthy location then Inr False
      else case location of
             PStr s \<Rightarrow> Inr (countries_loop SEA_COUNTRIES (py_lower s))
           | _ \<Rightarrow> Inl AttributeError)"

text \<open>\<open>', '.join(xs)\<close>.\<close>

fun join_comma :: "string list \<Rightarrow> string" where
  "join_comma [] = []"
| "join_comma [x] = x"
| "join_comma (x # y # ys) = x @ '', '' @ join_comma (y # ys)"

text \<open>
  \<open>validate_search_params\<close>: the checks in the order of the source; the answer is the
  pair of the verdict and the message.
\<close>

definition validate_search_params :: "string \<Rightarrow> string \<Rightarrow> int \<Rightarrow> bool \<times> string" where
  "validate_search_params search_term location results =
     (if search_term = [] \<or> py_strip search_term = [] then
        (False, ''Search term cannot be empty'')
      else if location = [] \<or> py_strip location = [] then
        (False, ''Location cannot be empty'')
      else if results \<le> 0 then
        (False, ''Results must be greater than 0'')
      else if results > 200 then
        (False, ''Results cannot exceed 200'')
      else if \<not> list_ex (\<lambda>country. py_in (py_lower country) (py_lower location))
                       (map fst SEA_COUNTRIES) then
        (False, ''Location must be in Southeast Asia: '' @ join_comma (map fst SEA_COUNTRIES))
      else (True, []))"

text \<open>
  The words of the specification: an alias occurs in a string as a case-insensitive
  substring when some contiguous part of the string equals the alias up to letter case.
\<close>

definition aliases :: "string list" where
  "aliases = concat (map snd SEA_COUNTRIES)"

definition ci_substring :: "string \<Rightarrow> string \<Rightarrow> bool" where
  "ci_substring a s \<longleftrightarrow> (\<exists>w. sublist w s \<and> py_lower w = py_lower a)"

section \<open>Sanitizer (utils/validation.py)\<close>

definition string_fields :: "string list" where
  "string_fields =
    [''job_url_direct'', ''company_name'', ''location'', ''job_type'', ''date_posted'',
     ''interval'', ''currency'', ''job_level'', ''job_function'', ''company_industry'',
     ''listing_type'', ''emails'', ''description'', ''company_url'', ''company_url_direct'',
     ''company_addresses'', ''company_num_employees'', ''company_revenue'',
     ''company_description'', ''logo_photo_url'', ''banner_photo_url'', ''ceo_name'',
     ''ceo_photo_url'', ''compensation_interval'', ''salary_source'', ''skills'',
     ''experience_range'']"

definition numeric_fields :: "string list" where
  "numeric_fields = [''min_amount'', ''max_amount'', ''company_rating'']"

text \<open>The loop over the optional string fields.\<close>

fun string_fields_loop :: "library \<Rightarrow> pydict \<Rightarrow> string list \<Rightarrow> pydict \<Rightarrow> pydict" where
  "string_fields_loop L job_data [] sanitized = sanitized"
| "string_fields_loop L job_data (field # rest) sanitized =
     (let v = dict_get job_data field
      in string_fields_loop L job_data rest
           (sanitized(field \<mapsto> (if v \<noteq> PNone then PStr (py_strip (py_str L v)) else PNone))))"

text \<open>
  The loop over the numeric fields. The handler catches ValueError and TypeError; any
  other exception of \<open>float\<close> leaves the function.
\<close>

fun numeric_fields_loop :: "library \<Rightarrow> pydict \<Rightarrow> string list \<Rightarrow> pydict \<Rightarrow> exn + pydict" where
  "numeric_fields_loop L job_data [] sanitized = Inr sanitized"
| "numeric_fields_loop L job_data (field # rest) sanitized =
     (let v = dict_get job_data field
      in if v \<noteq> PNone then
           (case py_float L v of
              Inr x \<Rightarrow> numeric_fields_loop L job_data rest (sanitized(field \<mapsto> PFloat x))
            | Inl e \<Rightarrow>
                if e = ValueError \<or> e = TypeError
                then numeric_fields_loop L job_data rest (sanitized(field \<mapsto> PNone))
                else Inl e)
         else numeric_fields_loop L job_data rest (sanitized(field \<mapsto> PNone)))"

text \<open>The boolean field: \<open>isinstance\<close> is asked for \<open>bool\<close> first, then for \<open>int\<close> and \<open>str\<close>.\<close>

fun sanitize_is_remote :: "library \<Rightarrow> pyval \<Rightarrow> pyval" where
  "sanitize_is_remote L (PBool b) = PInt (if b then 1 else 0)"
| "sanitize_is_remote L (PInt i) =
     PInt (if py_lower (py_str L (PInt i)) \<in> set [''true'', ''1'', ''yes''] then 1 else 0)"
| "sanitize_is_remote L (PStr s) =
     PInt (if py_lower (py_str L (PStr s)) \<in> set [''true'', ''1'', ''yes''] then 1 else 0)"
| "sanitize_is_remote L v = PInt 0"

definition sanitize_job_data :: "library \<Rightarrow> pydict \<Rightarrow> exn + pydict" where
  "sanitize_job_data L job_data =
     (let sanitized = Map.empty;
          sanitized = sanitized(''site'' \<mapsto>
            PStr (py_strip (py_str L (dict_get_default job_data ''site'' (PStr [])))));
          sanitized = sanitized(''job_url'' \<mapsto>
            PStr (py_strip (py_str L (dict_get_default job_data ''job_url'' (PStr [])))));
          sanitized = sanitized(''title'' \<mapsto>
            PStr (py_strip (py_str L (dict_get_default job_data ''title'' (PStr [])))));
          sanitized = string_fields_loop L job_data string_fields sanitized
      in case numeric_fields_loop L job_data numeric_fields sanitized of
           Inl e \<Rightarrow> Inl e
         | Inr sanitized \<Rightarrow>
             Inr (sanitized(''is_remote'' \<mapsto>
                    sanitize_is_remote L (dict_get job_data ''is_remote''))))"

section \<open>Persistence store (database/manager.py, utils/constants.py)\<close>

subsection \<open>The store\<close>

text \<open>
  The store is the list of the rows of the table \<open>jobs\<close> in the order of insertion,
  together with the last value of the AUTOINCREMENT counter.
\<close>

record database =
  rows :: "row list"
  seq :: nat

definition empty_database :: database where
  "empty_database = \<lparr>rows = [], seq = 0\<rparr>"

text \<open>
  Binding a Python value to a statement parameter: an integer outside 64 bits raises
  OverflowError, not-a-number is stored as NULL.
\<close>

fun sql_bind :: "pyval \<Rightarrow> exn + sqlval" where
  "sql_bind PNone = Inr SNull"
| "sql_bind (PBool b) = Inr (SInt (if b then 1 else 0))"
| "sql_bind (PInt i) =
     (if - (2 ^ 63) \<le> i \<and> i < 2 ^ 63 then Inr (SInt i) else Inl OverflowError)"
| "sql_bind (PFloat NaN) = Inr SNull"
| "sql_bind (PFloat (Fin x)) = Inr (SReal x)"
| "sql_bind (PStr s) = Inr (SText s)"

fun bind_all :: "pyval list \<Rightarrow> exn + sqlval list" where
  "bind_all [] = Inr []"
| "bind_all (v # vs) =
     (case sql_bind v of
        Inl e \<Rightarrow> Inl e
      | Inr x \<Rightarrow> (case bind_all vs of Inl e \<Rightarrow> Inl e | Inr xs \<Rightarrow> Inr (x # xs)))"

subsection \<open>Insertion\<close>

text \<open>The columns of the INSERT statement, in the order of its value tuple.\<close>

definition insert_columns :: "string list" where
  "insert_columns =
    [''site'', ''job_url'', ''job_url_direct'', ''title'', ''company_name'', ''location'',
     ''job_type'', ''date_posted'', ''interval'', ''min_amount'', ''max_amount'', ''currency'',
     ''is_remote'', ''job_level'', ''job_function'', ''company_industry'', ''listing_type'',
     ''emails'', ''description'', ''company_url'', ''company_url_direct'', ''company_addresses'',
     ''company_num_employees'', ''company_revenue'', ''company_description'',
     ''logo_photo_url'', ''banner_photo_url'', ''ceo_name'', ''ceo_photo_url'',
     ''compensation_interval'', ''salary_source'', ''company_rating'', ''skills'',
     ''experience_range'']"

text \<open>The value tuple: \<open>sanitized_job[c]\<close> for each column, a missing key raising KeyError.\<close>

fun value_tuple :: "pydict \<Rightarrow> string list \<Rightarrow> exn + pyval list" where
  "value_tuple sanitized_job [] = Inr []"
| "value_tuple sanitized_job (c # cs) =
     (case dict_index sanitized_job c of
        Inl e \<Rightarrow> Inl e
      | Inr v \<Rightarrow> (case value_tuple sanitized_job cs of
                   Inl e \<Rightarrow> Inl e
                 | Inr vs \<Rightarrow> Inr (v # vs)))"

text \<open>
  The new row: the bound values under their columns, the next \<open>id\<close>, and \<open>scraped_at\<close>
  from the column default CURRENT_TIMESTAMP; \<open>clock n\<close> is the reading of the clock when
  the row with id \<open>n\<close> is written. Every value the sanitizer passes already has the
  storage class of its column, so no conversion takes place on the way in.
\<close>

definition set_column :: "row \<Rightarrow> string \<times> sqlval \<Rightarrow> row" where
  "set_column r cv = r(fst cv := snd cv)"

definition new_row :: "(nat \<Rightarrow> string) \<Rightarrow> nat \<Rightarrow> sqlval list \<Rightarrow> row" where
  "new_row clock n vals =
     foldl set_column
       ((\<lambda>c. SNull)(''id'' := SInt (int n), ''is_remote'' := SInt 0,
                      ''scraped_at'' := SText (clock n)))
       (zip insert_columns vals)"

text \<open>
  INSERT OR IGNORE: a row that breaks NOT NULL on \<open>site\<close> or \<open>job_url\<close>, or UNIQUE on
  \<open>(job_url, site)\<close>, is dropped and the row count is 0; otherwise it is appended and
  the row count is 1. The engine takes the next \<open>id\<close> before it checks the constraints,
  so the AUTOINCREMENT counter advances for a dropped row as well.
\<close>

definition same_key :: "row \<Rightarrow> row \<Rightarrow> bool" where
  "same_key r r' \<longleftrightarrow> r ''job_url'' = r' ''job_url'' \<and> r ''site'' = r' ''site''"

definition insert_or_ignore :: "(nat \<Rightarrow> string) \<Rightarrow> database \<Rightarrow> sqlval list \<Rightarrow> database \<times> nat" where
  "insert_or_ignore clock db vals =
     (let r = new_row clock (seq db + 1) vals
      in if r ''site'' = SNull \<or> r ''job_url'' = SNull then (db\<lparr>seq := seq db + 1\<rparr>, 0)
         else if list_ex (same_key r) (rows db) then (db\<lparr>seq := seq db + 1\<rparr>, 0)
         else (\<lparr>rows = rows db @ [r], seq = seq db + 1\<rparr>, 1))"

text \<open>The state of one call of \<open>insert_jobs\<close>: the connection and the two counters.\<close>

record insert_state =
  conn :: database
  inserted_count :: nat
  skipped_count :: nat

text \<open>
  The body of the \<open>try\<close> for one record. An exception anywhere in it is the left
  summand; the handler logs it and goes on with the next record.
\<close>

definition try_insert_job ::
  "library \<Rightarrow> (nat \<Rightarrow> string) \<Rightarrow> insert_state \<Rightarrow> pydict \<Rightarrow> exn + insert_state" where
  "try_insert_job L clock st job_data =
     (case (if truthy (dict_get job_data ''location'')
            then (case dict_index job_data ''location'' of
                    Inl e \<Rightarrow> Inl e
                  | Inr loc \<Rightarrow> (case validate_sea_country loc of
                                 Inl e \<Rightarrow> Inl e
                               | Inr ok \<Rightarrow> Inr (\<not> ok)))
            else Inr False) of
        Inl e \<Rightarrow> Inl e
      | Inr True \<Rightarrow> Inr (st\<lparr>skipped_count := skipped_count st + 1\<rparr>)
      | Inr False \<Rightarrow>
          (case sanitize_job_data L job_data of
             Inl e \<Rightarrow> Inl e
           | Inr sanitized_job \<Rightarrow>
               (case value_tuple sanitized_job insert_columns of
                  Inl e \<Rightarrow> Inl e
                | Inr params \<Rightarrow>
                    (case bind_all params of
                       Inl e \<Rightarrow> Inl e
                     | Inr vals \<Rightarrow>
                         (let (db, rowcount) = insert_or_ignore clock (conn st) vals
                          in if rowcount > 0
                             then Inr (st\<lparr>conn := db, inserted_count := inserted_count st + 1\<rparr>)
                             else Inr (st\<lparr>conn := db\<rparr>))))))"

definition insert_job ::
  "library \<Rightarrow> (nat \<Rightarrow> string) \<Rightarrow> insert_state \<Rightarrow> pydict \<Rightarrow> insert_state" where
  "insert_job L clock st job_data =
     (case try_insert_job L clock st job_data of Inl e \<Rightarrow> st | Inr st' \<Rightarrow> st')"

text \<open>The loop over one batch, and the loop over the batches of 50 records.\<close>

fun batch_loop ::
  "library \<Rightarrow> (nat \<Rightarrow> string) \<Rightarrow> pydict list \<Rightarrow> insert_state \<Rightarrow> insert_state" where
  "batch_loop L clock [] st = st"
| "batch_loop L clock (job_data # batch) st =
     batch_loop L clock batch (insert_job L clock st job_data)"

definition batch_size :: nat where
  "batch_size = 50"

function batches_loop ::
  "library \<Rightarrow> (nat \<Rightarrow> string) \<Rightarrow> pydict list \<Rightarrow> insert_state \<Rightarrow> insert_state" where
  "batches_loop L clock jobs_data st =
     (if jobs_data = [] then st
      else batches_loop L clock (drop batch_size jobs_data)
             (batch_loop L clock (take batch_size jobs_data) st))"
  by pat_completeness auto
termination
  by (relation "measure (\<lambda>(L, clock, jobs_data, st). length jobs_data)")
     (auto simp: batch_size_def)

declare batches_loop.simps [simp del]

text \<open>
  \<open>insert_jobs\<close>. The source returns \<open>inserted_count\<close>; the final state is returned here,
  which holds it together with the store and the count of skipped records.
\<close>

definition insert_jobs ::
  "library \<Rightarrow> (nat \<Rightarrow> string) \<Rightarrow> database \<Rightarrow> pydict list \<Rightarrow> insert_state" where
  "insert_jobs L clock db jobs_data =
     (if jobs_data = [] then \<lparr>conn = db, inserted_count = 0, skipped_count = 0\<rparr>
      else batches_loop L clock jobs_data \<lparr>conn = db, inserted_count = 0, skipped_count = 0\<rparr>)"

section \<open>Ingestion orchestrator (core/scraper.py)\<close>

text \<open>
  The external scrape capability is a parameter: given the arguments of one call it
  answers with the list of raw records (empty for no data frame or an empty one) or
  raises. The world threaded through the orchestrator is the list of the calls made to
  that capability so far, and the store.
\<close>

record scrape_request =
  req_site_name :: string
  req_search_term :: string
  req_location :: string
  req_results_wanted :: int
  req_job_type :: "string option"
  req_hours_old :: "int option"
  req_country_indeed :: "string option"

type_synonym scrape_capability = "scrape_request \<Rightarrow> exn + pydict list"

record world =
  calls :: "scrape_request list"
  store :: database

text \<open>The filter on the records of one site; an exception of the classifier leaves the loop.\<close>

fun sea_filter :: "pydict list \<Rightarrow> exn + pydict list" where
  "sea_filter [] = Inr []"
| "sea_filter (job # jobs_list) =
     (if truthy (dict_get job ''location'') then
        (case validate_sea_country (dict_get job ''location'') of
           Inl e \<Rightarrow> Inl e
         | Inr ok \<Rightarrow>
             (case sea_filter jobs_list of
                Inl e \<Rightarrow> Inl e
              | Inr sea_jobs \<Rightarrow> Inr (if ok then job # sea_jobs else sea_jobs)))
      else sea_filter jobs_list)"

text \<open>
  \<open>scrape_site_with_logging\<close>: one call of the capability; every exception inside the
  \<open>try\<close> gives the empty list.
\<close>

definition scrape_site_with_logging ::
  "scrape_capability \<Rightarrow> world \<Rightarrow> string \<Rightarrow> string \<Rightarrow> string \<Rightarrow> int \<Rightarrow> string option \<Rightarrow>
   int option \<Rightarrow> pydict list \<times> world" where
  "scrape_site_with_logging scrape w site term loc wanted jtype hours =
     (let request = \<lparr>req_site_name = site, req_search_term = term, req_location = loc,
                      req_results_wanted = wanted, req_job_type = jtype, req_hours_old = hours,
                      req_country_indeed =
                        (if py_in ''singapore'' (py_lower loc) then Some ''Singapore'' else None)\<rparr>;
          w' = w\<lparr>calls := calls w @ [request]\<rparr>
      in case scrape request of
           Inl e \<Rightarrow> ([], w')
         | Inr jobs_list \<Rightarrow>
             if jobs_list \<noteq> [] then
               (case sea_filter jobs_list of
                  Inl e \<Rightarrow> ([], w')
                | Inr sea_jobs \<Rightarrow> (sea_jobs, w'))
             else ([], w'))"

text \<open>The loop over the sites; the pause between two sites changes nothing here.\<close>

fun sites_loop ::
  "scrape_capability \<Rightarrow> string \<Rightarrow> string \<Rightarrow> int \<Rightarrow> string option \<Rightarrow> int option \<Rightarrow>
   string list \<Rightarrow> pydict list \<Rightarrow> world \<Rightarrow> pydict list \<times> world" where
  "sites_loop scrape term loc wanted jtype hours [] all_jobs w = (all_jobs, w)"
| "sites_loop scrape term loc wanted jtype hours (site # sites) all_jobs w =
     (let (site_jobs, w') = scrape_site_with_logging scrape w site term loc wanted jtype hours
      in sites_loop scrape term loc wanted jtype hours sites
           (if site_jobs \<noteq> [] then all_jobs @ site_jobs else all_jobs) w')"

text \<open>
  \<open>JobScraper.scrape_jobs\<close>. After the loop the summary divides the elapsed time by the
  number of sites, which raises for an empty list of sites.
\<close>

definition scrape_jobs ::
  "scrape_capability \<Rightarrow> library \<Rightarrow> (nat \<Rightarrow> string) \<Rightarrow> world \<Rightarrow> string \<Rightarrow> string \<Rightarrow> int \<Rightarrow>
   string list option \<Rightarrow> string option \<Rightarrow> int option \<Rightarrow> (exn + nat) \<times> world" where
  "scrape_jobs scrape L clock w term loc results_per_site sites jtype hours =
     (let sites = (case sites of None \<Rightarrow> [''indeed'', ''linkedin''] | Some l \<Rightarrow> l);
          (is_valid, error_msg) = validate_search_params term loc results_per_site
      in if \<not> is_valid then (Inl ValueError, w)
         else
           (let (all_jobs, w') = sites_loop scrape term loc results_per_site jtype hours sites [] w
            in if sites = [] then (Inl ZeroDivisionError, w')
               else if all_jobs \<noteq> [] then
                 (let st = insert_jobs L clock (store w') all_jobs
                  in (Inr (inserted_count st), w'\<lparr>store := conn st\<rparr>))
               else (Inr 0, w')))"

subsection \<open>Queries\<close>

text \<open>
  The columns of the table with their type affinity, from the CREATE TABLE statement
  (TIMESTAMP gives NUMERIC affinity).
\<close>

datatype affinity = TEXT | REAL | INTEGER | NUMERIC

definition schema :: "(string \<times> affinity) list" where
  "schema =
    [(''id'', INTEGER), (''site'', TEXT), (''job_url'', TEXT), (''job_url_direct'', TEXT),
     (''title'', TEXT), (''company_name'', TEXT), (''location'', TEXT), (''job_type'', TEXT),
     (''date_posted'', TEXT), (''interval'', TEXT), (''min_amount'', REAL),
     (''max_amount'', REAL), (''currency'', TEXT), (''is_remote'', INTEGER),
     (''job_level'', TEXT), (''job_function'', TEXT), (''company_industry'', TEXT),
     (''listing_type'', TEXT), (''emails'', TEXT), (''description'', TEXT),
     (''company_url'', TEXT), (''company_url_direct'', TEXT), (''company_addresses'', TEXT),
     (''company_num_employees'', TEXT), (''company_revenue'', TEXT),
     (''company_description'', TEXT), (''logo_photo_url'', TEXT),
     (''banner_photo_url'', TEXT), (''ceo_name'', TEXT), (''ceo_photo_url'', TEXT),
     (''compensation_interval'', TEXT), (''salary_source'', TEXT),
     (''company_rating'', REAL), (''skills'', TEXT), (''experience_range'', TEXT),
     (''scraped_at'', NUMERIC)]"

definition column_affinity :: "string \<Rightarrow> affinity" where
  "column_affinity c = (case map_of schema c of None \<Rightarrow> NUMERIC | Some a \<Rightarrow> a)"

text \<open>
  The order of stored values: NULL first, then the numbers by value, then the texts
  byte by byte. \<open>sql_key\<close> maps a value to a triple whose lexicographic order is that
  order.
\<close>

fun sql_key :: "sqlval \<Rightarrow> nat \<times> real \<times> string" where
  "sql_key SNull = (0, 0, [])"
| "sql_key (SInt i) = (1, of_int i, [])"
| "sql_key (SReal x) = (1, x, [])"
| "sql_key (SText t) = (2, 0, t)"

text \<open>Comparisons in a WHERE clause have three values; \<open>None\<close> is NULL.\<close>

definition sql_le :: "sqlval \<Rightarrow> sqlval \<Rightarrow> bool option" where
  "sql_le a b = (if a = SNull \<or> b = SNull then None else Some (sql_key a \<le> sql_key b))"

definition sql_eq :: "sqlval \<Rightarrow> sqlval \<Rightarrow> bool option" where
  "sql_eq a b = (if a = SNull \<or> b = SNull then None else Some (sql_key a = sql_key b))"

fun sql_or :: "bool option \<Rightarrow> bool option \<Rightarrow> bool option" where
  "sql_or (Some True) b = Some True"
| "sql_or a (Some True) = Some True"
| "sql_or (Some False) (Some False) = Some False"
| "sql_or a b = None"

text \<open>
  A value as text, for LIKE and for the comparison with a TEXT column; and the effect
  of a column's affinity on a parameter compared with it (a number becomes text for a
  TEXT column; a parameter that is text stays text, which is what the date string of
  the recency filter needs).
\<close>

fun sql_text :: "library \<Rightarrow> sqlval \<Rightarrow> string option" where
  "sql_text L SNull = None"
| "sql_text L (SInt i) = Some (int_str i)"
| "sql_text L (SReal x) = Some (real_text L x)"
| "sql_text L (SText t) = Some t"

definition apply_affinity :: "library \<Rightarrow> affinity \<Rightarrow> sqlval \<Rightarrow> sqlval" where
  "apply_affinity L a v =
     (if a = TEXT then (case sql_text L v of None \<Rightarrow> SNull | Some t \<Rightarrow> SText t) else v)"

text \<open>
  LIKE: \<open>%\<close> stands for any sequence, \<open>_\<close> for any one character, and the letters A to Z
  match without regard to case.
\<close>

definition ascii_lower :: "char \<Rightarrow> char" where
  "ascii_lower c = (let n = (of_char c :: nat) in
     if 65 \<le> n \<and> n \<le> 90 then char_of (n + 32) else c)"

fun sql_like :: "string \<Rightarrow> string \<Rightarrow> bool" where
  "sql_like [] t = (t = [])"
| "sql_like (p # ps) [] = (p = CHR ''%'' \<and> sql_like ps [])"
| "sql_like (p # ps) (c # cs) =
     (if p = CHR ''%'' then sql_like ps (c # cs) \<or> sql_like (p # ps) cs
      else if p = CHR ''_'' then sql_like ps cs
      else ascii_lower p = ascii_lower c \<and> sql_like ps cs)"

text \<open>
  The conditions \<open>search_jobs\<close> puts into its WHERE clause. The source keeps the texts
  of the conditions and their parameters in two lists that grow together; here each
  condition carries its own parameters.
\<close>

datatype condition =
    Like string
  | Equals string
  | AtLeastEither string string
  | AtMostEither string string
  | AtLeast string

type_synonym clause = "condition \<times> pyval list"

fun eval_condition :: "library \<Rightarrow> condition \<Rightarrow> sqlval list \<Rightarrow> row \<Rightarrow> bool option" where
  "eval_condition L (Like c) [p] r =
     (case (sql_text L (r c), sql_text L p) of
        (Some t, Some pat) \<Rightarrow> Some (sql_like pat t)
      | _ \<Rightarrow> None)"
| "eval_condition L (Equals c) [p] r = sql_eq (r c) (apply_affinity L (column_affinity c) p)"
| "eval_condition L (AtLeastEither c d) [p, q] r = sql_or (sql_le p (r c)) (sql_le q (r d))"
| "eval_condition L (AtMostEither c d) [p, q] r = sql_or (sql_le (r c) p) (sql_le (r d) q)"
| "eval_condition L (AtLeast c) [p] r = sql_le p (r c)"
| "eval_condition L cond ps r = None"

text \<open>
  A row is selected when every condition is true for it (the conditions are joined by
  AND; with no condition the clause is \<open>1=1\<close>).
\<close>

definition selected :: "library \<Rightarrow> (condition \<times> sqlval list) list \<Rightarrow> row \<Rightarrow> bool" where
  "selected L conds r = list_all (\<lambda>(c, ps). eval_condition L c ps r = Some True) conds"

text \<open>Binding the parameters of all conditions, in their order.\<close>

fun bind_clauses :: "clause list \<Rightarrow> exn + (condition \<times> sqlval list) list" where
  "bind_clauses [] = Inr []"
| "bind_clauses ((c, ps) # rest) =
     (case bind_all ps of
        Inl e \<Rightarrow> Inl e
      | Inr vs \<Rightarrow> (case bind_clauses rest of Inl e \<Rightarrow> Inl e | Inr bs \<Rightarrow> Inr ((c, vs) # bs)))"

text \<open>
  The text of the WHERE clause: the texts of the conditions joined by AND, or \<open>1=1\<close>;
  and the text of the ORDER BY clause.
\<close>

fun condition_sql :: "condition \<Rightarrow> string" where
  "condition_sql (Like c) = c @ '' LIKE ?''"
| "condition_sql (Equals c) = c @ '' = ?''"
| "condition_sql (AtLeastEither c d) = ''('' @ c @ '' >= ? OR '' @ d @ '' >= ?)''"
| "condition_sql (AtMostEither c d) = ''('' @ c @ '' <= ? OR '' @ d @ '' <= ?)''"
| "condition_sql (AtLeast c) = c @ '' >= ?''"

fun join_and :: "string list \<Rightarrow> string" where
  "join_and [] = []"
| "join_and [x] = x"
| "join_and (x # y # ys) = x @ '' AND '' @ join_and (y # ys)"

definition where_clause :: "clause list \<Rightarrow> string" where
  "where_clause where_conditions =
     (if where_conditions \<noteq> [] then join_and (map (\<lambda>(c, ps). condition_sql c) where_conditions)
      else ''1=1'')"

definition order_clause :: "string \<Rightarrow> string \<Rightarrow> string" where
  "order_clause sort_by sort_order = ''ORDER BY '' @ sort_by @ '' '' @ sort_order"

text \<open>
  ORDER BY one column over the selected rows \<open>rs\<close> of the table: by the sort key,
  ascending or descending, and among rows with equal keys by the rank the plan of the
  statement gives them.
\<close>

definition order_by ::
  "library \<Rightarrow> string \<Rightarrow> string \<Rightarrow> string \<Rightarrow> row list \<Rightarrow> row list \<Rightarrow> row list" where
  "order_by L where_text c direction table rs =
     (let rank = tie_rank L where_text (order_clause c direction) table
      in if direction = ''ASC'' then sort_key (\<lambda>r. (sql_key (r c), rank r)) rs
         else rev (sort_key (\<lambda>r. (sql_key (r c), - rank r)) rs))"

text \<open>LIMIT and OFFSET: a negative limit is no limit, a negative offset is 0.\<close>

definition limit_offset :: "int \<Rightarrow> int \<Rightarrow> 'a list \<Rightarrow> 'a list" where
  "limit_offset l off xs =
     (let ys = drop (nat off) xs in if l < 0 then ys else take (nat l) ys)"

subsection \<open>Search\<close>

definition like_clause :: "library \<Rightarrow> pydict \<Rightarrow> string \<Rightarrow> string \<Rightarrow> clause list" where
  "like_clause L filters key c =
     (if truthy (dict_get filters key)
      then [(Like c, [PStr (''%'' @ py_str L (dict_get filters key) @ ''%'')])]
      else [])"

definition equals_clause :: "pydict \<Rightarrow> string \<Rightarrow> string \<Rightarrow> clause list" where
  "equals_clause filters key c =
     (if truthy (dict_get filters key) then [(Equals c, [dict_get filters key])] else [])"

definition is_remote_clause :: "library \<Rightarrow> pydict \<Rightarrow> clause list" where
  "is_remote_clause L filters =
     (if truthy (dict_get filters ''is_remote'')
      then [(Equals ''is_remote'',
             [PInt (if py_lower (py_str L (dict_get filters ''is_remote'')) = ''true''
                    then 1 else 0)])]
      else [])"

definition min_salary_clause :: "library \<Rightarrow> pydict \<Rightarrow> exn + clause list" where
  "min_salary_clause L filters =
     (if truthy (dict_get filters ''min_salary'') then
        (case py_float L (dict_get filters ''min_salary'') of
           Inl e \<Rightarrow> Inl e
         | Inr x \<Rightarrow> Inr [(AtLeastEither ''min_amount'' ''max_amount'', [PFloat x, PFloat x])])
      else Inr [])"

definition max_salary_clause :: "library \<Rightarrow> pydict \<Rightarrow> exn + clause list" where
  "max_salary_clause L filters =
     (if truthy (dict_get filters ''max_salary'') then
        (case py_float L (dict_get filters ''max_salary'') of
           Inl e \<Rightarrow> Inl e
         | Inr x \<Rightarrow> Inr [(AtMostEither ''min_amount'' ''max_amount'', [PFloat x, PFloat x])])
      else Inr [])"

definition days_old_clause :: "library \<Rightarrow> pydict \<Rightarrow> exn + clause list" where
  "days_old_clause L filters =
     (if truthy (dict_get filters ''days_old'') then
        (case py_int L (dict_get filters ''days_old'') of
           Inl e \<Rightarrow> Inl e
         | Inr n \<Rightarrow>
             (case cutoff_date L n of
                None \<Rightarrow> Inl OverflowError
              | Some cutoff \<Rightarrow> Inr [(AtLeast ''scraped_at'', [PStr cutoff])]))
      else Inr [])"

text \<open>
  The WHERE clause, built in the order of the source. Only the last three steps can
  raise, so the first exception is the one the source raises first.
\<close>

definition where_clauses :: "library \<Rightarrow> pydict \<Rightarrow> exn + clause list" where
  "where_clauses L filters =
     (case min_salary_clause L filters of
        Inl e \<Rightarrow> Inl e
      | Inr min_salary \<Rightarrow>
          (case max_salary_clause L filters of
             Inl e \<Rightarrow> Inl e
           | Inr max_salary \<Rightarrow>
               (case days_old_clause L filters of
                  Inl e \<Rightarrow> Inl e
                | Inr days_old \<Rightarrow>
                    Inr (like_clause L filters ''title'' ''title''
                         @ like_clause L filters ''company'' ''company_name''
                         @ like_clause L filters ''location'' ''location''
                         @ like_clause L filters ''country'' ''location''
                         @ equals_clause filters ''job_type'' ''job_type''
                         @ equals_clause filters ''site'' ''site''
                         @ is_remote_clause L filters
                         @ min_salary @ max_salary @ days_old))))"

definition valid_sort_fields :: "string list" where
  "valid_sort_fields =
    [''title'', ''company_name'', ''location'', ''min_amount'', ''max_amount'',
     ''date_posted'', ''scraped_at'']"

text \<open>The sort column, and the sort direction (\<open>upper\<close> exists on strings only).\<close>

definition sort_column :: "pydict \<Rightarrow> string" where
  "sort_column filters =
     (case dict_get_default filters ''sort_by'' (PStr ''scraped_at'') of
        PStr s \<Rightarrow> if s \<in> set valid_sort_fields then s else ''scraped_at''
      | _ \<Rightarrow> ''scraped_at'')"

definition sort_direction :: "pydict \<Rightarrow> exn + string" where
  "sort_direction filters =
     (case dict_get_default filters ''sort_order'' (PStr ''desc'') of
        PStr s \<Rightarrow> Inr (if py_upper s \<in> set [''ASC'', ''DESC''] then py_upper s else ''DESC'')
      | _ \<Rightarrow> Inl AttributeError)"

text \<open>
  \<open>search_jobs\<close> (\<open>filters=None\<close> is the empty dictionary). The count query runs first
  and binds the parameters of the conditions; the second query binds the page size and
  the offset as well.
\<close>

definition search_jobs ::
  "library \<Rightarrow> database \<Rightarrow> pydict \<Rightarrow> int \<Rightarrow> int \<Rightarrow> exn + row list \<times> nat" where
  "search_jobs L db filters page per_page =
     (case where_clauses L filters of
        Inl e \<Rightarrow> Inl e
      | Inr clauses \<Rightarrow>
          (case sort_direction filters of
             Inl e \<Rightarrow> Inl e
           | Inr sort_order \<Rightarrow>
               (case bind_clauses clauses of
                  Inl e \<Rightarrow> Inl e
                | Inr conds \<Rightarrow>
                    (let matching = filter (selected L conds) (rows db);
                         total_count = length matching;
                         offset = (page - 1) * per_page
                     in case bind_all [PInt per_page, PInt offset] of
                          Inl e \<Rightarrow> Inl e
                        | Inr limits \<Rightarrow>
                            Inr (limit_offset per_page offset
                                   (order_by L (where_clause clauses) (sort_column filters)
                                      sort_order (rows db) matching),
                                 total_count)))))"

text \<open>
  The pagination arguments of the route \<open>/api/jobs\<close> (api/app.py): the page size asked
  for is capped by \<open>max_results_per_request\<close>.
\<close>

definition get_jobs_pagination ::
  "library \<Rightarrow> int \<Rightarrow> (string \<rightharpoonup> string) \<Rightarrow> exn + int \<times> int" where
  "get_jobs_pagination L max_results_per_request args =
     (case (case args ''page'' of None \<Rightarrow> Inr 1 | Some s \<Rightarrow> py_int L (PStr s)) of
        Inl e \<Rightarrow> Inl e
      | Inr page \<Rightarrow>
          (case (case args ''per_page'' of None \<Rightarrow> Inr 20 | Some s \<Rightarrow> py_int L (PStr s)) of
             Inl e \<Rightarrow> Inl e
           | Inr per_page \<Rightarrow> Inr (page, min per_page max_results_per_request)))"

subsection \<open>Statistics\<close>

text \<open>
  The result of \<open>get_statistics\<close>. Numbers are reals (the integer 0 of the guarded
  branches and the float 0.0 are the same number here); \<open>min_salary\<close> and \<open>max_salary\<close>
  can be \<open>None\<close>, since MIN and MAX over no value give NULL.
\<close>

record salary_statistics =
  avg_min_salary :: real
  avg_max_salary :: real
  min_salary :: "real option"
  max_salary :: "real option"
  jobs_with_salary :: nat
  percentage_with_salary :: real

record statistics =
  total_jobs :: nat
  jobs_by_country :: "(string \<times> nat) list"
  jobs_by_site :: "(sqlval \<times> nat) list"
  remote_percentage :: real
  salary_stats :: salary_statistics

text \<open>The division of Python, and \<open>round(x, ndigits)\<close> (halves go to the even neighbour).\<close>

definition py_truediv :: "real \<Rightarrow> real \<Rightarrow> exn + real" where
  "py_truediv a b = (if b = 0 then Inl ZeroDivisionError else Inr (a / b))"

definition round_half_even :: "real \<Rightarrow> int" where
  "round_half_even x =
     (let f = \<lfloor>x\<rfloor>; d = x - of_int f
      in if d < 1 / 2 then f else if 1 / 2 < d then f + 1 else if even f then f else f + 1)"

definition py_round :: "real \<Rightarrow> nat \<Rightarrow> real" where
  "py_round x ndigits = of_int (round_half_even (x * 10 ^ ndigits)) / 10 ^ ndigits"

text \<open>
  The aggregates AVG, MIN and MAX over one column: NULL is left out, and so is a text
  (which the sanitizer never stores in a numeric column); over no value they give NULL.
\<close>

fun sql_num :: "sqlval \<Rightarrow> real option" where
  "sql_num (SInt i) = Some (of_int i)"
| "sql_num (SReal x) = Some x"
| "sql_num v = None"

definition numbers :: "string \<Rightarrow> row list \<Rightarrow> real list" where
  "numbers c rs = List.map_filter (\<lambda>r. sql_num (r c)) rs"

definition sql_avg :: "string \<Rightarrow> row list \<Rightarrow> real option" where
  "sql_avg c rs =
     (let xs = numbers c rs in if xs = [] then None else Some (sum_list xs / of_nat (length xs)))"

definition sql_min :: "string \<Rightarrow> row list \<Rightarrow> real option" where
  "sql_min c rs = (let xs = numbers c rs in if xs = [] then None else Some (Min (set xs)))"

definition sql_max :: "string \<Rightarrow> row list \<Rightarrow> real option" where
  "sql_max c rs = (let xs = numbers c rs in if xs = [] then None else Some (Max (set xs)))"

text \<open>The CASE expression that sorts a row into its country.\<close>

definition location_like :: "library \<Rightarrow> row \<Rightarrow> string \<Rightarrow> bool" where
  "location_like L r pat =
     (case sql_text L (r ''location'') of None \<Rightarrow> False | Some t \<Rightarrow> sql_like pat t)"

definition country_of :: "library \<Rightarrow> row \<Rightarrow> string" where
  "country_of L r =
     (if location_like L r ''%Singapore%'' then ''Singapore''
      else if location_like L r ''%Indonesia%'' \<or> location_like L r ''%Jakarta%''
        then ''Indonesia''
      else if location_like L r ''%Malaysia%'' \<or> location_like L r ''%Kuala Lumpur%''
        then ''Malaysia''
      else if location_like L r ''%Thailand%'' \<or> location_like L r ''%Bangkok%''
        then ''Thailand''
      else if location_like L r ''%Vietnam%'' \<or> location_like L r ''%Ho Chi Minh%''
              \<or> location_like L r ''%Hanoi%''
        then ''Vietnam''
      else ''Other'')"

text \<open>
  GROUP BY with COUNT, ordered by the count, largest first. The groups are formed in
  the order of their keys; groups of equal count keep that order.
\<close>

definition group_counts :: "('k \<Rightarrow> 'o::linorder) \<Rightarrow> 'k list \<Rightarrow> ('k \<times> nat) list" where
  "group_counts key ks =
     (let groups = map (\<lambda>k. (k, count_list ks k)) (sort_key key (remdups ks))
      in rev (sort_key snd (rev groups)))"

text \<open>\<open>get_statistics\<close>; both divisions stand behind the test \<open>total_jobs > 0\<close>.\<close>

definition get_statistics :: "library \<Rightarrow> database \<Rightarrow> exn + statistics" where
  "get_statistics L db =
     (let total = length (rows db);
          by_country = group_counts id (map (country_of L) (rows db));
          by_site = group_counts sql_key (map (\<lambda>r. r ''site'') (rows db));
          remote_count = length (filter (\<lambda>r. sql_eq (r ''is_remote'') (SInt 1) = Some True) (rows db));
          with_salary = filter (\<lambda>r. r ''min_amount'' \<noteq> SNull \<or> r ''max_amount'' \<noteq> SNull) (rows db);
          avg_min = sql_avg ''min_amount'' with_salary;
          avg_max = sql_avg ''max_amount'' with_salary;
          lowest = sql_min ''min_amount'' with_salary;
          highest = sql_max ''max_amount'' with_salary;
          n = length with_salary
      in case (if total > 0
               then (case py_truediv (of_nat remote_count) (of_nat total) of
                       Inl e \<Rightarrow> Inl e | Inr q \<Rightarrow> Inr (q * 100))
               else Inr 0) of
           Inl e \<Rightarrow> Inl e
         | Inr remote \<Rightarrow>
             (case (if n > 0 then
                      (case (if total > 0
                             then (case py_truediv (of_nat n) (of_nat total) of
                                     Inl e \<Rightarrow> Inl e | Inr q \<Rightarrow> Inr (py_round (q * 100) 1))
                             else Inr 0) of
                         Inl e \<Rightarrow> Inl e
                       | Inr percentage \<Rightarrow>
                           Inr \<lparr>avg_min_salary =
                                  py_round (case avg_min of None \<Rightarrow> 0 | Some x \<Rightarrow> x) 2,
                                avg_max_salary =
                                  py_round (case avg_max of None \<Rightarrow> 0 | Some x \<Rightarrow> x) 2,
                                min_salary = lowest, max_salary = highest,
                                jobs_with_salary = n,
                                percentage_with_salary = percentage\<rparr>)
                    else
                      Inr \<lparr>avg_min_salary = 0, avg_max_salary = 0, min_salary = Some 0,
                           max_salary = Some 0, jobs_with_salary = 0,
                           percentage_with_salary = 0\<rparr>) of
                Inl e \<Rightarrow> Inl e
              | Inr salary \<Rightarrow>
                  Inr \<lparr>total_jobs = total, jobs_by_country = by_country,
                       jobs_by_site = by_site, remote_percentage = remote,
                       salary_stats = salary\<rparr>))"

section \<open>Notions used in the statements\<close>

text \<open>The key of a row under the UNIQUE constraint, and the constraint itself.\<close>

definition row_key :: "row \<Rightarrow> sqlval \<times> sqlval" where
  "row_key r = (r ''job_url'', r ''site'')"

definition unique_keys :: "database \<Rightarrow> bool" where
  "unique_keys db \<longleftrightarrow> distinct (map row_key (rows db))"

text \<open>
  An environment for evaluating examples: a library in which no string reads as a
  number, a plan that gives all rows the same rank (rows with equal sort keys then come
  in stored order, ascending, and in the reverse of it, descending, as on a walk along an
  index), and a clock that stands still.
\<close>

definition sample_library :: library where
  "sample_library =
     \<lparr>float_of_str = (\<lambda>s. None), nearest_float = of_int, repr_float = (\<lambda>x. ''0.0''),
      int_of_str = (\<lambda>s. None), real_text = (\<lambda>x. ''0.0''),
      cutoff_date = (\<lambda>n. Some ''2024-01-01 00:00:00''),
      tie_rank = (\<lambda>w oc t r. 0)\<rparr>"

definition sample_clock :: "nat \<Rightarrow> string" where
  "sample_clock n = ''2024-01-15 12:00:00''"

definition no_results :: scrape_capability where
  "no_results request = Inr []"

definition fresh_world :: world where
  "fresh_world = \<lparr>calls = [], store = empty_database\<rparr>"

text \<open>
  The values with which a record reaches the INSERT statement, if it reaches it: it is
  not skipped by the location check and nothing raises on the way.
\<close>

definition prepared :: "library \<Rightarrow> pydict \<Rightarrow> sqlval list option" where
  "prepared L job_data =
     (if truthy (dict_get job_data ''location'')
         \<and> validate_sea_country (dict_get job_data ''location'') \<noteq> Inr True then None
      else case sanitize_job_data L job_data of
             Inl e \<Rightarrow> None
           | Inr sanitized_job \<Rightarrow>
               (case value_tuple sanitized_job insert_columns of
                  Inl e \<Rightarrow> None
                | Inr params \<Rightarrow> (case bind_all params of Inl e \<Rightarrow> None | Inr vals \<Rightarrow> Some vals)))"

text \<open>The key a value tuple would be stored under, and whether the store refuses it.\<close>

definition vals_key :: "sqlval list \<Rightarrow> sqlval \<times> sqlval" where
  "vals_key vals = row_key (new_row (\<lambda>n. []) 0 vals)"

definition refused :: "database \<Rightarrow> sqlval list \<Rightarrow> bool" where
  "refused db vals \<longleftrightarrow>
     fst (vals_key vals) = SNull \<or> snd (vals_key vals) = SNull
     \<or> vals_key vals \<in> row_key ` set (rows db)"

definition sample_job :: pydict where
  "sample_job = [''site'' \<mapsto> PStr ''indeed'', ''job_url'' \<mapsto> PStr ''https://example.com/1'',
     ''title'' \<mapsto> PStr ''Developer'', ''location'' \<mapsto> PStr ''Singapore'']"

definition sample_job2 :: pydict where
  "sample_job2 = [''site'' \<mapsto> PStr ''linkedin'', ''job_url'' \<mapsto> PStr ''https://example.com/1'',
     ''title'' \<mapsto> PStr ''Developer'', ''location'' \<mapsto> PStr ''Jakarta, Indonesia'']"

definition new_york_job :: pydict where
  "new_york_job = [''site'' \<mapsto> PStr ''indeed'', ''job_url'' \<mapsto> PStr ''https://example.com/2'',
     ''title'' \<mapsto> PStr ''Analyst'', ''location'' \<mapsto> PStr ''New York'']"

definition job_without_location :: pydict where
  "job_without_location = [''site'' \<mapsto> PStr ''indeed'',
     ''job_url'' \<mapsto> PStr ''https://example.com/3'', ''title'' \<mapsto> PStr ''Engineer'']"

definition numbered_job :: pydict where
  "numbered_job = [''site'' \<mapsto> PStr ''indeed'', ''job_url'' \<mapsto> PStr ''https://example.com/4'',
     ''title'' \<mapsto> PStr ''Engineer'', ''location'' \<mapsto> PInt 65]"

definition fresh_state :: insert_state where
  "fresh_state = \<lparr>conn = empty_database, inserted_count = 0, skipped_count = 0\<rparr>"

text \<open>
  What the location check of \<open>insert_jobs\<close> lets into the store: no location, the text
  of a falsy value (the empty string, 0, False), or a string the classifier accepts.
\<close>

definition location_admitted :: "library \<Rightarrow> row \<Rightarrow> bool" where
  "location_admitted L r \<longleftrightarrow>
     r ''location'' = SNull
     \<or> (\<exists>v. \<not> truthy v \<and> r ''location'' = SText (py_strip (py_str L v)))
     \<or> (\<exists>t. r ''location'' = SText t \<and> validate_sea_country (PStr t) = Inr True)"

text \<open>A store with two rows, one with a salary range and one without.\<close>

definition row_of :: "(string \<times> sqlval) list \<Rightarrow> row" where
  "row_of kvs = foldl set_column (\<lambda>c. SNull) kvs"

definition salary_row :: row where
  "salary_row = row_of
     [(''id'', SInt 1), (''site'', SText ''indeed''), (''job_url'', SText ''https://example.com/a''),
      (''title'', SText ''Data Analyst''), (''company_name'', SText ''Zeta''),
      (''location'', SText ''Singapore''), (''min_amount'', SReal 1000),
      (''max_amount'', SReal 2000), (''is_remote'', SInt 0),
      (''scraped_at'', SText ''2024-01-01 08:00:00'')]"

definition plain_row :: row where
  "plain_row = row_of
     [(''id'', SInt 2), (''site'', SText ''linkedin''), (''job_url'', SText ''https://example.com/b''),
      (''title'', SText ''Developer''), (''company_name'', SText ''Alpha''),
      (''location'', SText ''Jakarta, Indonesia''), (''is_remote'', SInt 1),
      (''scraped_at'', SText ''2024-01-02 08:00:00'')]"

definition sample_store :: database where
  "sample_store = \<lparr>rows = [salary_row, plain_row], seq = 2\<rparr>"

text \<open>What a search returns, reduced to the ids of the rows and the total count.\<close>

definition result_ids :: "exn + row list \<times> nat \<Rightarrow> exn + sqlval list \<times> nat" where
  "result_ids res =
     (case res of Inl e \<Rightarrow> Inl e | Inr (jobs, n) \<Rightarrow> Inr (map (\<lambda>r. r ''id'') jobs, n))"

text \<open>The salary aggregates of the branch without salary data.\<close>

definition no_salary_statistics :: salary_statistics where
  "no_salary_statistics =
     \<lparr>avg_min_salary = 0, avg_max_salary = 0, min_salary = Some 0, max_salary = Some 0,
      jobs_with_salary = 0, percentage_with_salary = 0\<rparr>"

text \<open>
  The rows the WHERE clause of a search selects, and all of them in the order of the
  search (before LIMIT and OFFSET).
\<close>

definition matches :: "library \<Rightarrow> pydict \<Rightarrow> row \<Rightarrow> bool" where
  "matches L filters r =
     (case where_clauses L filters of
        Inl e \<Rightarrow> False
      | Inr clauses \<Rightarrow>
          (case bind_clauses clauses of Inl e \<Rightarrow> False | Inr conds \<Rightarrow> selected L conds r))"

definition ordered_matches :: "library \<Rightarrow> database \<Rightarrow> pydict \<Rightarrow> row list" where
  "ordered_matches L db filters =
     (case where_clauses L filters of
        Inl e \<Rightarrow> []
      | Inr clauses \<Rightarrow>
          (case sort_direction filters of
             Inl e \<Rightarrow> []
           | Inr d \<Rightarrow>
               order_by L (where_clause clauses) (sort_column filters) d (rows db)
                 (filter (matches L filters) (rows db))))"

text \<open>The keys of the filters that add a condition to the WHERE clause.\<close>

definition filter_keys :: "string list" where
  "filter_keys =
    [''title'', ''company'', ''location'', ''country'', ''job_type'', ''site'', ''is_remote'',
     ''min_salary'', ''max_salary'', ''days_old'']"

text \<open>An amount that is present and at least, or at most, a threshold.\<close>

definition amount_at_least :: "sqlval \<Rightarrow> real \<Rightarrow> bool" where
  "amount_at_least a s \<longleftrightarrow> (\<exists>x. a = SReal x \<and> s \<le> x)"

definition amount_at_most :: "sqlval \<Rightarrow> real \<Rightarrow> bool" where
  "amount_at_most a s \<longleftrightarrow> (\<exists>x. a = SReal x \<and> x \<le> s)"

definition stored_amount :: "sqlval \<Rightarrow> bool" where
  "stored_amount a \<longleftrightarrow> a = SNull \<or> (\<exists>x. a = SReal x)"

section \<open>Properties of the location classifier\<close>

lemmas char_eval = py_lower_def lower_char_def py_upper_def upper_char_def isspace_def
  char_of_def bit_Suc_0_iff

lemma py_in_sublist: "py_in n h \<longleftrightarrow> sublist n h"
  by (induction h) (auto simp: sublist_Cons_right)

lemma sublist_map_lower:
  "sublist a (map f s) \<longleftrightarrow> (\<exists>w. sublist w s \<and> map f w = a)"
proof
  assume "sublist a (map f s)"
  then obtain ps ss where "map f s = ps @ a @ ss"
    by (auto simp: sublist_def)
  then obtain us vs where us: "s = us @ vs" "ps = map f us" "a @ ss = map f vs"
    unfolding map_eq_append_conv by blast
  then obtain w t where "vs = w @ t" "map f w = a"
    unfolding append_eq_map_conv by blast
  with us have "s = us @ w @ t" "map f w = a"
    by simp_all
  then show "\<exists>w. sublist w s \<and> map f w = a"
    by (auto simp: sublist_def)
next
  assume "\<exists>w. sublist w s \<and> map f w = a"
  then obtain w ps ss where "s = ps @ w @ ss" "map f w = a"
    by (auto simp: sublist_def)
  then have "map f s = map f ps @ a @ map f ss"
    by simp
  then show "sublist a (map f s)"
    unfolding sublist_def by blast
qed

lemma py_in_lower: "py_in (py_lower a) (py_lower s) \<longleftrightarrow> ci_substring a s"
  unfolding py_in_sublist ci_substring_def py_lower_def
  by (simp add: sublist_map_lower)

lemma cities_loop_iff:
  "cities_loop cities (py_lower s) \<longleftrightarrow> (\<exists>a\<in>set cities. ci_substring a s)"
  by (induction cities) (auto simp: py_in_lower)

lemma countries_loop_iff:
  "countries_loop table (py_lower s) \<longleftrightarrow> (\<exists>a\<in>set (concat (map snd table)). ci_substring a s)"
  by (induction table) (auto simp: cities_loop_iff)

lemma validate_str:
  "validate_sea_country (PStr s) = Inr (\<exists>a\<in>set aliases. ci_substring a s)"
proof (cases "s = []")
  case True
  have "\<not> ci_substring a []" if "a \<in> set aliases" for a
    using that
    by (auto simp: aliases_def SEA_COUNTRIES_def ci_substring_def py_lower_def)
  then have "\<not> (\<exists>a\<in>set aliases. ci_substring a [])"
    by blast
  then show ?thesis
    using True by (simp add: validate_sea_country_def)
next
  case False
  then show ?thesis
    by (simp add: validate_sea_country_def countries_loop_iff aliases_def)
qed

text \<open>
  C3. The location classifier answers true exactly for the strings that contain, as a
  case-insensitive substring, some alias of the table of the five countries; for a
  string without any alias, for the empty string and for \<open>None\<close> it answers false.
\<close>

theorem validate_sea_country_exact:
  "validate_sea_country (PStr s) = Inr (\<exists>a\<in>set aliases. ci_substring a s)
   \<and> validate_sea_country (PStr []) = Inr False
   \<and> validate_sea_country PNone = Inr False
   \<and> map fst SEA_COUNTRIES = [''Indonesia'', ''Malaysia'', ''Thailand'', ''Vietnam'', ''Singapore'']"
proof (intro conjI)
  show "validate_sea_country (PStr s) = Inr (\<exists>a\<in>set aliases. ci_substring a s)"
    by (rule validate_str)
  show "validate_sea_country (PStr []) = Inr False"
    by (simp add: validate_sea_country_def)
  show "validate_sea_country PNone = Inr False"
    by (simp add: validate_sea_country_def)
  show "map fst SEA_COUNTRIES = [''Indonesia'', ''Malaysia'', ''Thailand'', ''Vietnam'', ''Singapore'']"
    by (simp add: SEA_COUNTRIES_def)
qed

theorem validate_sea_country_exact_witness:
  "validate_sea_country (PStr ''South JAKARTA, ID'') = Inr True
   \<and> validate_sea_country (PStr ''New York'') = Inr False"
proof -
  have "sublist ''JAKARTA'' ''South JAKARTA, ID''"
    unfolding sublist_def by (rule exI [of _ "''South ''"], rule exI [of _ "'', ID''"]) simp
  moreover have "py_lower ''JAKARTA'' = py_lower ''Jakarta''"
    by (simp add: char_eval)
  ultimately have "ci_substring ''Jakarta'' ''South JAKARTA, ID''"
    unfolding ci_substring_def by blast
  moreover have "''Jakarta'' \<in> set aliases"
    by (simp add: aliases_def SEA_COUNTRIES_def)
  ultimately have yes: "\<exists>a\<in>set aliases. ci_substring a ''South JAKARTA, ID''"
    by blast
  have no: "validate_sea_country (PStr ''New York'') = Inr False"
    by (simp add: validate_sea_country_def SEA_COUNTRIES_def char_eval)
  from yes no show ?thesis
    using validate_sea_country_exact [of "''South JAKARTA, ID''"] by simp
qed

section \<open>Validation before scraping\<close>

lemma py_strip_empty_iff: "py_strip s = [] \<longleftrightarrow> (\<forall>c\<in>set s. isspace c)"
proof
  assume "py_strip s = []"
  then have "dropWhile isspace (rev (dropWhile isspace s)) = []"
    by (simp add: py_strip_def)
  then have all: "\<forall>c\<in>set (dropWhile isspace s). isspace c"
    by simp
  have "dropWhile isspace s = []"
  proof (rule ccontr)
    assume "dropWhile isspace s \<noteq> []"
    then have "\<not> isspace (hd (dropWhile isspace s))" "hd (dropWhile isspace s) \<in> set (dropWhile isspace s)"
      by (simp_all add: hd_dropWhile)
    with all show False
      by blast
  qed
  then show "\<forall>c\<in>set s. isspace c"
    by simp
next
  assume "\<forall>c\<in>set s. isspace c"
  then have d: "dropWhile isspace s = []"
    by simp
  show "py_strip s = []"
    unfolding py_strip_def d by simp
qed

lemma country_check_iff:
  "list_ex (\<lambda>country. py_in (py_lower country) (py_lower loc)) names
   \<longleftrightarrow> (\<exists>c\<in>set names. ci_substring c loc)"
  by (simp add: list_ex_iff py_in_lower)

lemma country_names: 
  "map fst SEA_COUNTRIES = [''Indonesia'', ''Malaysia'', ''Thailand'', ''Vietnam'', ''Singapore'']"
  by (simp add: SEA_COUNTRIES_def)

lemma validate_search_params_invalid:
  assumes "(\<forall>c\<in>set term. isspace c) \<or> (\<forall>c\<in>set loc. isspace c) \<or> results \<le> 0 \<or> 200 < results
    \<or> \<not> (\<exists>c\<in>set [''Indonesia'', ''Malaysia'', ''Thailand'', ''Vietnam'', ''Singapore''].
           ci_substring c loc)"
  shows "fst (validate_search_params term loc results) = False"
proof -
  have strip: "\<And>s. (s = [] \<or> py_strip s = []) = (\<forall>c\<in>set s. isspace c)"
    by (auto simp: py_strip_empty_iff)
  show ?thesis
    using assms
    unfolding validate_search_params_def strip country_check_iff country_names
    by auto
qed

text \<open>
  C8. When the search term or the location is empty or consists of whitespace, or the
  number of results per site is not in (0, 200], or the location contains none of the
  five country names (compared without regard to letter case, as the source does), the
  orchestrator raises ValueError and the world is as before: no call of the external
  scrape capability has been made and the store is untouched.
\<close>

theorem scrape_jobs_fails_fast:
  assumes "(\<forall>c\<in>set term. isspace c) \<or> (\<forall>c\<in>set loc. isspace c) \<or> results \<le> 0 \<or> 200 < results
    \<or> \<not> (\<exists>c\<in>set [''Indonesia'', ''Malaysia'', ''Thailand'', ''Vietnam'', ''Singapore''].
           ci_substring c loc)"
  shows "scrape_jobs scrape L clock w term loc results sites jtype hours = (Inl ValueError, w)"
proof -
  obtain ok msg where v: "validate_search_params term loc results = (ok, msg)"
    by (cases "validate_search_params term loc results")
  with validate_search_params_invalid [OF assms] have "\<not> ok"
    by simp
  with v show ?thesis
    by (simp add: scrape_jobs_def)
qed

theorem scrape_jobs_fails_fast_witness:
  "scrape_jobs no_results sample_library sample_clock fresh_world ''developer'' ''   '' 25
     (Some [''indeed'']) None None = (Inl ValueError, fresh_world)
   \<and> scrape_jobs no_results sample_library sample_clock fresh_world ''developer'' ''Singapore'' 201
     None None None = (Inl ValueError, fresh_world)
   \<and> calls fresh_world = []"
proof -
  have "\<forall>c\<in>set ''   ''. isspace c"
    by (simp add: isspace_def)
  then have a: "scrape_jobs no_results sample_library sample_clock fresh_world ''developer'' ''   '' 25
     (Some [''indeed'']) None None = (Inl ValueError, fresh_world)"
    by (intro scrape_jobs_fails_fast) blast
  have b: "scrape_jobs no_results sample_library sample_clock fresh_world ''developer'' ''Singapore'' 201
     None None None = (Inl ValueError, fresh_world)"
    by (intro scrape_jobs_fails_fast) simp
  from a b show ?thesis
    by (simp add: fresh_world_def)
qed

section \<open>Insertion into the store\<close>

lemma foldl_set_column:
  "foldl set_column base kvs c =
     (case map_of (rev kvs) c of None \<Rightarrow> base c | Some v \<Rightarrow> v)"
  by (induction kvs rule: rev_induct) (simp_all add: set_column_def)

lemma new_row_key: "row_key (new_row clock n vals) = vals_key vals"
  by (simp add: vals_key_def row_key_def new_row_def foldl_set_column split: option.split)

lemma insert_or_ignore_eq:
  "insert_or_ignore clock db vals =
     (if refused db vals then (db\<lparr>seq := seq db + 1\<rparr>, 0)
      else (\<lparr>rows = rows db @ [new_row clock (seq db + 1) vals], seq = seq db + 1\<rparr>, 1))"
proof -
  have k: "row_key (new_row clock (seq db + 1) vals) = vals_key vals"
    by (rule new_row_key)
  have "list_ex (same_key (new_row clock (seq db + 1) vals)) (rows db)
        \<longleftrightarrow> vals_key vals \<in> row_key ` set (rows db)"
    unfolding k [symmetric] by (auto simp: list_ex_iff same_key_def row_key_def)
  moreover have "new_row clock (seq db + 1) vals ''site'' = snd (vals_key vals)"
    "new_row clock (seq db + 1) vals ''job_url'' = fst (vals_key vals)"
    unfolding k [symmetric] by (simp_all add: row_key_def)
  ultimately show ?thesis
    unfolding insert_or_ignore_def refused_def Let_def by auto
qed

lemma refused_after: "refused (fst (insert_or_ignore clock db vals)) vals"
  by (auto simp: insert_or_ignore_eq refused_def new_row_key)

lemma refused_mono:
  "refused db vals' \<Longrightarrow> refused (fst (insert_or_ignore clock db vals)) vals'"
  by (auto simp: insert_or_ignore_eq refused_def)

lemma unique_keys_insert:
  "unique_keys db \<Longrightarrow> unique_keys (fst (insert_or_ignore clock db vals))"
  by (auto simp: insert_or_ignore_eq refused_def unique_keys_def new_row_key)

lemma conn_insert_job:
  "conn (insert_job L clock st job) =
     (case prepared L job of
        None \<Rightarrow> conn st
      | Some vals \<Rightarrow> fst (insert_or_ignore clock (conn st) vals))"
  by (auto simp: insert_job_def try_insert_job_def prepared_def dict_index_def dict_get_def
      split: sum.splits option.splits bool.splits prod.splits)

lemma inserted_insert_job:
  "inserted_count (insert_job L clock st job) =
     inserted_count st +
     (case prepared L job of
        None \<Rightarrow> 0
      | Some vals \<Rightarrow> snd (insert_or_ignore clock (conn st) vals))"
  by (auto simp: insert_job_def try_insert_job_def prepared_def dict_index_def dict_get_def
      insert_or_ignore_eq split: sum.splits option.splits bool.splits prod.splits if_splits)

lemma batch_loop_append:
  "batch_loop L clock (xs @ ys) st = batch_loop L clock ys (batch_loop L clock xs st)"
  by (induction xs arbitrary: st) simp_all

lemma batches_loop_flat: "batches_loop L clock jobs_data st = batch_loop L clock jobs_data st"
proof (induction L clock jobs_data st rule: batches_loop.induct)
  case (1 L clock jobs_data st)
  show ?case
  proof (cases "jobs_data = []")
    case True
    then show ?thesis
      by (subst batches_loop.simps) simp
  next
    case False
    have "batches_loop L clock jobs_data st =
          batches_loop L clock (drop batch_size jobs_data)
            (batch_loop L clock (take batch_size jobs_data) st)"
      by (subst batches_loop.simps) (simp only: False if_False)
    also have "\<dots> = batch_loop L clock (drop batch_size jobs_data)
            (batch_loop L clock (take batch_size jobs_data) st)"
      by (rule 1 [OF False])
    also have "\<dots> = batch_loop L clock (take batch_size jobs_data @ drop batch_size jobs_data) st"
      by (simp only: batch_loop_append)
    also have "\<dots> = batch_loop L clock jobs_data st"
      by (simp only: append_take_drop_id)
    finally show ?thesis .
  qed
qed

lemma insert_jobs_flat:
  "insert_jobs L clock db jobs_data =
     batch_loop L clock jobs_data \<lparr>conn = db, inserted_count = 0, skipped_count = 0\<rparr>"
  by (simp add: insert_jobs_def batches_loop_flat)

lemma batch_loop_refused_mono:
  "refused (conn st) vals \<Longrightarrow> refused (conn (batch_loop L clock js st)) vals"
proof (induction js arbitrary: st)
  case Nil
  then show ?case by simp
next
  case (Cons job js)
  from Cons.prems have "refused (conn (insert_job L clock st job)) vals"
    by (simp add: conn_insert_job refused_mono split: option.split)
  then show ?case
    by (simp add: Cons.IH)
qed

lemma batch_loop_settles:
  "job \<in> set js \<Longrightarrow> prepared L job = Some vals
   \<Longrightarrow> refused (conn (batch_loop L clock js st)) vals"
proof (induction js arbitrary: st)
  case Nil
  then show ?case by simp
next
  case (Cons j js)
  show ?case
  proof (cases "job = j")
    case True
    with Cons.prems have "refused (conn (insert_job L clock st j)) vals"
      by (simp add: conn_insert_job refused_after)
    then show ?thesis
      by (simp add: batch_loop_refused_mono)
  next
    case False
    with Cons show ?thesis by simp
  qed
qed

lemma refused_rows: "rows db' = rows db \<Longrightarrow> refused db' vals = refused db vals"
  by (simp add: refused_def)

lemma batch_loop_nothing_new:
  assumes "\<And>job vals. job \<in> set js \<Longrightarrow> prepared L job = Some vals \<Longrightarrow> refused (conn st) vals"
  shows "rows (conn (batch_loop L clock js st)) = rows (conn st)
         \<and> inserted_count (batch_loop L clock js st) = inserted_count st"
  using assms
proof (induction js arbitrary: st)
  case Nil
  then show ?case by simp
next
  case (Cons j js)
  have c: "rows (conn (insert_job L clock st j)) = rows (conn st)"
    using Cons.prems [of j]
    by (auto simp: conn_insert_job insert_or_ignore_eq split: option.split)
  have i: "inserted_count (insert_job L clock st j) = inserted_count st"
    using Cons.prems [of j]
    by (auto simp: inserted_insert_job insert_or_ignore_eq split: option.split)
  have "refused (conn (insert_job L clock st j)) vals"
    if "job \<in> set js" "prepared L job = Some vals" for job vals
    using Cons.prems [of job vals] that refused_rows [OF c] by simp
  then have "rows (conn (batch_loop L clock js (insert_job L clock st j)))
       = rows (conn (insert_job L clock st j))
     \<and> inserted_count (batch_loop L clock js (insert_job L clock st j))
       = inserted_count (insert_job L clock st j)"
    by (rule Cons.IH)
  with c i show ?case
    by simp
qed

lemma batch_loop_unique:
  "unique_keys (conn st) \<Longrightarrow> unique_keys (conn (batch_loop L clock js st))"
proof (induction js arbitrary: st)
  case Nil
  then show ?case by simp
next
  case (Cons j js)
  from Cons.prems have "unique_keys (conn (insert_job L clock st j))"
    by (simp add: conn_insert_job unique_keys_insert split: option.split)
  then show ?case
    by (simp add: Cons.IH)
qed

text \<open>
  C1. Inserting the same list of records a second time inserts nothing: the second
  call returns 0 and leaves the rows as the first call left them, so the number of rows
  is unchanged. A store in which no pair \<open>(job_url, site)\<close> occurs twice stays so under
  \<open>insert_jobs\<close>, and the empty store is such a store.
\<close>

theorem insert_jobs_idempotent:
  "(let first = insert_jobs L clock db jobs_data;
        second = insert_jobs L clock' (conn first) jobs_data
    in inserted_count second = 0
       \<and> rows (conn second) = rows (conn first)
       \<and> length (rows (conn second)) = length (rows (conn first))
       \<and> (unique_keys db \<longrightarrow> unique_keys (conn first)))
   \<and> unique_keys empty_database"
proof -
  let ?init = "\<lambda>d. \<lparr>conn = d, inserted_count = 0, skipped_count = 0\<rparr>"
  let ?first = "batch_loop L clock jobs_data (?init db)"
  let ?second = "batch_loop L clock' jobs_data (?init (conn ?first))"
  have settled: "refused (conn (?init (conn ?first))) vals"
    if "job \<in> set jobs_data" "prepared L job = Some vals" for job vals
    using batch_loop_settles [OF that, of clock "?init db"] by simp
  have "rows (conn ?second) = rows (conn (?init (conn ?first)))
      \<and> inserted_count ?second = inserted_count (?init (conn ?first))"
    by (rule batch_loop_nothing_new) (rule settled)
  then have second: "rows (conn ?second) = rows (conn ?first)" "inserted_count ?second = 0"
    by simp_all
  have unique: "unique_keys (conn ?first)" if "unique_keys db"
    using batch_loop_unique [of "?init db" L clock jobs_data] that by simp
  have "unique_keys empty_database"
    by (simp add: unique_keys_def empty_database_def)
  with second unique show ?thesis
    by (simp add: insert_jobs_flat Let_def)
qed

theorem insert_jobs_idempotent_witness:
  "unique_keys empty_database
   \<and> inserted_count (insert_jobs sample_library sample_clock empty_database
        [sample_job, sample_job2, sample_job]) = 2
   \<and> inserted_count (insert_jobs sample_library sample_clock
        (conn (insert_jobs sample_library sample_clock empty_database
           [sample_job, sample_job2, sample_job]))
        [sample_job, sample_job2, sample_job]) = 0
   \<and> unique_keys (conn (insert_jobs sample_library sample_clock empty_database
        [sample_job, sample_job2, sample_job]))"
proof -
  have first: "inserted_count (insert_jobs sample_library sample_clock empty_database
        [sample_job, sample_job2, sample_job]) = 2"
    by code_simp
  have empty: "unique_keys empty_database"
    by (simp add: unique_keys_def empty_database_def)
  from first empty show ?thesis
    using insert_jobs_idempotent [of sample_library sample_clock empty_database
        "[sample_job, sample_job2, sample_job]" sample_clock]
    unfolding Let_def by blast
qed

section \<open>The sanitizer\<close>

lemma string_fields_loop_lookup:
  "string_fields_loop L job fs s f =
     (if f \<in> set fs
      then Some (if dict_get job f \<noteq> PNone then PStr (py_strip (py_str L (dict_get job f)))
                 else PNone)
      else s f)"
  by (induction fs arbitrary: s) (auto simp: Let_def)

lemma numeric_fields_loop_other:
  "numeric_fields_loop L job fs s = Inr s' \<Longrightarrow> f \<notin> set fs \<Longrightarrow> s' f = s f"
proof (induction fs arbitrary: s)
  case Nil
  then show ?case by simp
next
  case (Cons g fs)
  from Cons.prems(2) have f: "f \<noteq> g" "f \<notin> set fs"
    by auto
  from Cons.prems(1) obtain v where
    "numeric_fields_loop L job fs (s(g \<mapsto> v)) = Inr s'"
    by (auto simp: Let_def split: if_splits sum.splits)
  from Cons.IH [OF this f(2)] f(1) show ?case
    by simp
qed

lemma sanitize_string_field:
  assumes "sanitize_job_data L job = Inr s" "f \<in> set string_fields"
  shows "s f = Some (if dict_get job f \<noteq> PNone
                    then PStr (py_strip (py_str L (dict_get job f))) else PNone)"
proof -
  from assms(2) have f: "f \<notin> set numeric_fields" "f \<noteq> ''is_remote''"
    by (auto simp: string_fields_def numeric_fields_def)
  from assms(1) obtain s' where
    s': "numeric_fields_loop L job numeric_fields
           (string_fields_loop L job string_fields
             [''site'' \<mapsto> PStr (py_strip (py_str L (dict_get_default job ''site'' (PStr [])))),
              ''job_url'' \<mapsto> PStr (py_strip (py_str L (dict_get_default job ''job_url'' (PStr [])))),
              ''title'' \<mapsto> PStr (py_strip (py_str L (dict_get_default job ''title'' (PStr []))))])
         = Inr s'"
    and s: "s = s'(''is_remote'' \<mapsto> sanitize_is_remote L (dict_get job ''is_remote''))"
    by (auto simp: sanitize_job_data_def Let_def split: sum.splits)
  from numeric_fields_loop_other [OF s' f(1)] assms(2) f(2) show ?thesis
    unfolding s by (simp add: string_fields_loop_lookup)
qed

lemma value_tuple_map:
  "value_tuple s cs = Inr ps \<Longrightarrow> ps = map (\<lambda>c. the (s c)) cs"
  by (induction cs arbitrary: ps) (auto simp: dict_index_def split: sum.splits option.splits)

lemma bind_all_map:
  "bind_all ps = Inr vals \<Longrightarrow> vals = map (\<lambda>v. projr (sql_bind v)) ps"
  by (induction ps arbitrary: vals) (auto split: sum.splits)

text \<open>
  C9. The sanitizer can raise: the handler around \<open>float\<close> catches ValueError and
  TypeError only, and \<open>float\<close> of an integer beyond the range of floats raises
  OverflowError. The record below has valid required fields and \<open>min_amount = 2 ** 1024\<close>.
\<close>

theorem sanitize_job_data_overflow:
  "sanitize_job_data L
     [''site'' \<mapsto> PStr ''indeed'', ''job_url'' \<mapsto> PStr ''https://example.com/1'',
      ''title'' \<mapsto> PStr ''Developer'', ''min_amount'' \<mapsto> PInt (2 ^ 1024)]
   = Inl OverflowError"
  by (simp add: sanitize_job_data_def numeric_fields_def dict_get_def Let_def float_overflow_def)

section \<open>The location check of the store\<close>

lemma isspace_lower: "isspace c \<Longrightarrow> lower_char c = c"
  by (auto simp: isspace_def lower_char_def Let_def)

lemma sublist_dropWhile:
  assumes "sublist w s" "w \<noteq> []" "\<not> P (hd w)"
  shows "sublist w (dropWhile P s)"
proof -
  from assms(1) obtain ps ss where s: "s = ps @ w @ ss"
    by (auto simp: sublist_def)
  from assms(2,3) have w: "dropWhile P (w @ ss) = w @ ss"
    by (cases w) simp_all
  have "sublist w (dropWhile P (ps @ w @ ss))"
  proof (induction ps)
    case Nil
    show ?case
      unfolding append_Nil w sublist_def by force
  next
    case (Cons p ps)
    show ?case
    proof (cases "P p")
      case True
      with Cons show ?thesis by simp
    next
      case False
      have "sublist w ((p # ps) @ w @ ss)"
        by (rule sublist_appendI)
      with False show ?thesis by simp
    qed
  qed
  with s show ?thesis by simp
qed

lemma sublist_py_strip:
  assumes "sublist w s" "w \<noteq> []" "\<not> isspace (hd w)" "\<not> isspace (last w)"
  shows "sublist w (py_strip s)"
proof -
  have "sublist w (dropWhile isspace s)"
    using assms(1-3) by (rule sublist_dropWhile)
  then have "sublist (rev w) (rev (dropWhile isspace s))"
    by simp
  moreover have "rev w \<noteq> []" "\<not> isspace (hd (rev w))"
    using assms(2,4) by (simp_all add: hd_rev)
  ultimately have "sublist (rev w) (dropWhile isspace (rev (dropWhile isspace s)))"
    by (rule sublist_dropWhile)
  then have "sublist (rev (rev w)) (rev (dropWhile isspace (rev (dropWhile isspace s))))"
    by (simp only: sublist_rev)
  then show ?thesis
    by (simp add: py_strip_def)
qed

lemma aliases_ends:
  "\<forall>a\<in>set aliases. a \<noteq> [] \<and> \<not> isspace (lower_char (hd a)) \<and> \<not> isspace (lower_char (last a))"
  by (simp add: aliases_def SEA_COUNTRIES_def char_eval)

lemma ci_substring_strip:
  assumes "a \<in> set aliases" "ci_substring a s"
  shows "ci_substring a (py_strip s)"
proof -
  from assms(2) obtain w where w: "sublist w s" "py_lower w = py_lower a"
    by (auto simp: ci_substring_def)
  from assms(1) aliases_ends have a: "a \<noteq> []" "\<not> isspace (lower_char (hd a))"
    "\<not> isspace (lower_char (last a))"
    by blast+
  from w(2) have len: "length w = length a"
    unfolding py_lower_def by (rule map_eq_imp_length_eq)
  with a(1) have wne: "w \<noteq> []"
    by auto
  from w(2) have "hd (map lower_char w) = hd (map lower_char a)"
    "last (map lower_char w) = last (map lower_char a)"
    by (simp_all add: py_lower_def)
  with wne a(1) have "lower_char (hd w) = lower_char (hd a)"
    "lower_char (last w) = lower_char (last a)"
    by (simp_all add: hd_map last_map)
  with a(2,3) have "\<not> isspace (hd w)" "\<not> isspace (last w)"
    using isspace_lower by metis+
  with w(1) wne have "sublist w (py_strip s)"
    by (intro sublist_py_strip)
  with w(2) show ?thesis
    unfolding ci_substring_def by blast
qed

lemma validate_strip:
  "validate_sea_country (PStr s) = Inr True \<Longrightarrow> validate_sea_country (PStr (py_strip s)) = Inr True"
  unfolding validate_str using ci_substring_strip by auto

lemma validate_True_str:
  "truthy v \<Longrightarrow> validate_sea_country v = Inr True \<Longrightarrow> \<exists>s. v = PStr s"
  by (cases v) (simp_all add: validate_sea_country_def)

lemma distinct_insert_columns: "distinct insert_columns"
  by (simp add: insert_columns_def)

lemma new_row_column:
  assumes "c \<in> set insert_columns"
  shows "new_row clock n (map g insert_columns) c = g c"
proof -
  have "zip insert_columns (map g insert_columns) = map (\<lambda>k. (k, g k)) insert_columns"
    by (simp add: zip_map2 zip_same_conv_map)
  then have "map_of (rev (zip insert_columns (map g insert_columns))) c
             = map_of (map (\<lambda>k. (k, g k)) (rev insert_columns)) c"
    by (simp add: rev_map)
  also have "\<dots> = Some (g c)"
    using assms by (simp add: map_of_map_restrict)
  finally show ?thesis
    by (simp add: new_row_def foldl_set_column)
qed

lemma prepared_location:
  assumes "prepared L job = Some vals"
  shows "new_row clock n vals ''location'' =
           (if dict_get job ''location'' = PNone then SNull
            else SText (py_strip (py_str L (dict_get job ''location''))))"
    and "\<not> truthy (dict_get job ''location'')
         \<or> validate_sea_country (dict_get job ''location'') = Inr True"
proof -
  from assms show "\<not> truthy (dict_get job ''location'')
         \<or> validate_sea_country (dict_get job ''location'') = Inr True"
    by (auto simp: prepared_def split: if_splits)
  from assms obtain s ps where s: "sanitize_job_data L job = Inr s"
    and ps: "value_tuple s insert_columns = Inr ps" and vals: "bind_all ps = Inr vals"
    by (auto simp: prepared_def split: if_splits sum.splits)
  have "vals = map (\<lambda>c. projr (sql_bind (the (s c)))) insert_columns"
    using value_tuple_map [OF ps] bind_all_map [OF vals] by simp
  moreover have "''location'' \<in> set insert_columns"
    by (simp add: insert_columns_def)
  ultimately have "new_row clock n vals ''location'' = projr (sql_bind (the (s ''location'')))"
    by (simp add: new_row_column)
  moreover have "''location'' \<in> set string_fields"
    by (simp add: string_fields_def)
  note sanitize_string_field [OF s this]
  ultimately show "new_row clock n vals ''location'' =
           (if dict_get job ''location'' = PNone then SNull
            else SText (py_strip (py_str L (dict_get job ''location''))))"
    by simp
qed

lemma prepared_admitted:
  assumes "prepared L job = Some vals"
  shows "location_admitted L (new_row clock n vals)"
proof (cases "truthy (dict_get job ''location'')")
  case True
  with prepared_location(2) [OF assms]
  have ok: "validate_sea_country (dict_get job ''location'') = Inr True"
    by simp
  with True obtain t where t: "dict_get job ''location'' = PStr t"
    using validate_True_str by blast
  with ok have "validate_sea_country (PStr (py_strip t)) = Inr True"
    by (simp add: validate_strip)
  moreover have "new_row clock n vals ''location'' = SText (py_strip t)"
    using prepared_location(1) [OF assms, of clock n] t by simp
  ultimately show ?thesis
    by (simp add: location_admitted_def)
next
  case False
  show ?thesis
  proof (cases "dict_get job ''location'' = PNone")
    case True
    then show ?thesis
      using prepared_location(1) [OF assms, of clock n] by (simp add: location_admitted_def)
  next
    case notNone: False
    then have "new_row clock n vals ''location'' = SText (py_strip (py_str L (dict_get job ''location'')))"
      using prepared_location(1) [OF assms, of clock n] by simp
    with False show ?thesis
      unfolding location_admitted_def by blast
  qed
qed

lemma insert_job_admitted:
  assumes "\<forall>r\<in>set (rows (conn st)). location_admitted L r"
  shows "\<forall>r\<in>set (rows (conn (insert_job L clock st job))). location_admitted L r"
proof (cases "prepared L job")
  case None
  with assms show ?thesis
    by (simp add: conn_insert_job)
next
  case (Some vals)
  with assms prepared_admitted [OF Some] show ?thesis
    by (auto simp: conn_insert_job insert_or_ignore_eq)
qed

lemma batch_loop_admitted:
  "\<forall>r\<in>set (rows (conn st)). location_admitted L r
   \<Longrightarrow> \<forall>r\<in>set (rows (conn (batch_loop L clock js st))). location_admitted L r"
proof (induction js arbitrary: st)
  case Nil
  then show ?case by simp
next
  case (Cons j js)
  from Cons.prems have "\<forall>r\<in>set (rows (conn (insert_job L clock st j))). location_admitted L r"
    by (rule insert_job_admitted)
  then show ?case
    unfolding batch_loop.simps by (rule Cons.IH)
qed

lemma insert_job_skips:
  assumes "truthy (dict_get job ''location'')"
    and "validate_sea_country (dict_get job ''location'') = Inr False"
  shows "insert_job L clock st job = st\<lparr>skipped_count := skipped_count st + 1\<rparr>"
  using assms
  by (auto simp: insert_job_def try_insert_job_def dict_index_def dict_get_def
      split: option.splits)

lemma insert_job_raises:
  assumes "truthy (dict_get job ''location'')"
    and "validate_sea_country (dict_get job ''location'') = Inl e"
  shows "insert_job L clock st job = st"
  using assms
  by (auto simp: insert_job_def try_insert_job_def dict_index_def dict_get_def
      split: option.splits)

lemma insert_job_not_skipped:
  assumes "\<not> truthy (dict_get job ''location'')
           \<or> validate_sea_country (dict_get job ''location'') = Inr True"
  shows "skipped_count (insert_job L clock st job) = skipped_count st"
  using assms
  by (auto simp: insert_job_def try_insert_job_def dict_index_def dict_get_def
      split: sum.splits prod.splits option.splits)

lemma insert_job_inserts:
  assumes "\<not> truthy (dict_get job ''location'')
           \<or> validate_sea_country (dict_get job ''location'') = Inr True"
    and "sanitize_job_data L job = Inr sanitized_job"
    and "value_tuple sanitized_job insert_columns = Inr params"
    and "bind_all params = Inr vals"
    and "\<not> refused (conn st) vals"
  shows "insert_job L clock st job =
           st\<lparr>conn := \<lparr>rows = rows (conn st) @ [new_row clock (seq (conn st) + 1) vals],
                        seq = seq (conn st) + 1\<rparr>,
              inserted_count := inserted_count st + 1\<rparr>"
  using assms
  by (auto simp: insert_job_def try_insert_job_def insert_or_ignore_eq dict_index_def
      dict_get_def split: option.splits)

text \<open>
  C2, as the code has it. A record whose location is truthy and fails the classifier is
  counted as skipped and leaves the store as it was; one whose location is truthy and
  not a string makes the classifier raise, and is neither inserted nor counted. A
  record whose location is falsy (absent, \<open>None\<close>, the empty string, 0, False) is not
  checked: it is never counted as skipped, and it is inserted just as a record with an
  accepted location is, whenever sanitising and binding it raise nothing and the store
  does not refuse its pair \<open>(job_url, site)\<close>; its row has no location, or the text of
  the falsy value. Hence every row that \<open>insert_jobs\<close> adds has no location, the text of a
  falsy value, or a location that satisfies the classifier (also after the sanitizer has
  stripped it).
\<close>

theorem insert_jobs_location_check:
  "(truthy (dict_get job ''location'')
      \<and> validate_sea_country (dict_get job ''location'') = Inr False
    \<longrightarrow> insert_job L clock st job = st\<lparr>skipped_count := skipped_count st + 1\<rparr>)
   \<and> (truthy (dict_get job ''location'')
      \<and> validate_sea_country (dict_get job ''location'') = Inl e
    \<longrightarrow> insert_job L clock st job = st)
   \<and> (\<not> truthy (dict_get job ''location'')
      \<or> validate_sea_country (dict_get job ''location'') = Inr True
    \<longrightarrow> skipped_count (insert_job L clock st job) = skipped_count st)
   \<and> ((\<not> truthy (dict_get job ''location'')
        \<or> validate_sea_country (dict_get job ''location'') = Inr True)
      \<and> sanitize_job_data L job = Inr sanitized_job
      \<and> value_tuple sanitized_job insert_columns = Inr params
      \<and> bind_all params = Inr vals
      \<and> \<not> refused (conn st) vals
    \<longrightarrow> insert_job L clock st job =
          st\<lparr>conn := \<lparr>rows = rows (conn st) @ [new_row clock (seq (conn st) + 1) vals],
                       seq = seq (conn st) + 1\<rparr>,
             inserted_count := inserted_count st + 1\<rparr>
        \<and> new_row clock (seq (conn st) + 1) vals ''location'' =
            (if dict_get job ''location'' = PNone then SNull
             else SText (py_strip (py_str L (dict_get job ''location'')))))
   \<and> ((\<forall>r\<in>set (rows db). location_admitted L r)
    \<longrightarrow> (\<forall>r\<in>set (rows (conn (insert_jobs L clock db jobs_data))). location_admitted L r))"
proof (intro conjI impI)
  assume "truthy (dict_get job ''location'')
      \<and> validate_sea_country (dict_get job ''location'') = Inr False"
  then show "insert_job L clock st job = st\<lparr>skipped_count := skipped_count st + 1\<rparr>"
    by (simp add: insert_job_skips)
next
  assume "truthy (dict_get job ''location'')
      \<and> validate_sea_country (dict_get job ''location'') = Inl e"
  then show "insert_job L clock st job = st"
    by (simp add: insert_job_raises)
next
  assume "\<not> truthy (dict_get job ''location'')
      \<or> validate_sea_country (dict_get job ''location'') = Inr True"
  then show "skipped_count (insert_job L clock st job) = skipped_count st"
    by (rule insert_job_not_skipped)
next
  assume a: "(\<not> truthy (dict_get job ''location'')
        \<or> validate_sea_country (dict_get job ''location'') = Inr True)
      \<and> sanitize_job_data L job = Inr sanitized_job
      \<and> value_tuple sanitized_job insert_columns = Inr params
      \<and> bind_all params = Inr vals
      \<and> \<not> refused (conn st) vals"
  then show "insert_job L clock st job =
          st\<lparr>conn := \<lparr>rows = rows (conn st) @ [new_row clock (seq (conn st) + 1) vals],
                       seq = seq (conn st) + 1\<rparr>,
             inserted_count := inserted_count st + 1\<rparr>"
    using insert_job_inserts [of job L sanitized_job params vals st clock] by blast
  from a have "prepared L job = Some vals"
    by (auto simp: prepared_def)
  then show "new_row clock (seq (conn st) + 1) vals ''location'' =
            (if dict_get job ''location'' = PNone then SNull
             else SText (py_strip (py_str L (dict_get job ''location''))))"
    by (rule prepared_location(1))
next
  assume "\<forall>r\<in>set (rows db). location_admitted L r"
  then have "\<forall>r\<in>set (rows (conn \<lparr>conn = db, inserted_count = 0, skipped_count = 0\<rparr>)).
      location_admitted L r"
    by simp
  then show "\<forall>r\<in>set (rows (conn (insert_jobs L clock db jobs_data))). location_admitted L r"
    unfolding insert_jobs_flat by (rule batch_loop_admitted)
qed

theorem insert_jobs_location_check_witness:
  "insert_job sample_library sample_clock fresh_state new_york_job
     = fresh_state\<lparr>skipped_count := skipped_count fresh_state + 1\<rparr>
   \<and> insert_job sample_library sample_clock fresh_state numbered_job = fresh_state
   \<and> skipped_count (insert_job sample_library sample_clock fresh_state job_without_location)
     = skipped_count fresh_state
   \<and> inserted_count (insert_job sample_library sample_clock fresh_state job_without_location)
     = inserted_count fresh_state + 1
   \<and> map (\<lambda>r. r ''location'')
       (rows (conn (insert_job sample_library sample_clock fresh_state job_without_location)))
     = [SNull]
   \<and> list_all (location_admitted sample_library)
        (rows (conn (insert_jobs sample_library sample_clock empty_database
          [sample_job, new_york_job, job_without_location])))"
proof -
  have ny: "truthy (dict_get new_york_job ''location'')
      \<and> validate_sea_country (dict_get new_york_job ''location'') = Inr False"
    by (simp add: new_york_job_def dict_get_def validate_sea_country_def SEA_COUNTRIES_def
        char_eval)
  have nb: "truthy (dict_get numbered_job ''location'')
      \<and> validate_sea_country (dict_get numbered_job ''location'') = Inl AttributeError"
    by (simp add: numbered_job_def dict_get_def validate_sea_country_def)
  have falsy: "\<not> truthy (dict_get job_without_location ''location'')"
    and none: "dict_get job_without_location ''location'' = PNone"
    by (simp_all add: job_without_location_def dict_get_def)
  have "case sanitize_job_data sample_library job_without_location of
          Inl e \<Rightarrow> False
        | Inr s \<Rightarrow>
            (case value_tuple s insert_columns of
               Inl e \<Rightarrow> False
             | Inr ps \<Rightarrow>
                 (case bind_all ps of
                    Inl e \<Rightarrow> False
                  | Inr vals \<Rightarrow> \<not> refused (conn fresh_state) vals))"
    by code_simp
  then obtain s ps vals where
    s: "sanitize_job_data sample_library job_without_location = Inr s"
    and ps: "value_tuple s insert_columns = Inr ps"
    and vals: "bind_all ps = Inr vals"
    and free: "\<not> refused (conn fresh_state) vals"
    by (auto split: sum.splits)
  have empty: "\<forall>r\<in>set (rows empty_database). location_admitted sample_library r"
    by (simp add: empty_database_def)
  have fresh: "rows (conn fresh_state) = []"
    by (simp add: fresh_state_def empty_database_def)
  note t = insert_jobs_location_check [where job = new_york_job and L = sample_library
      and clock = sample_clock and st = fresh_state]
    insert_jobs_location_check [where job = numbered_job and e = AttributeError
      and L = sample_library and clock = sample_clock and st = fresh_state]
    insert_jobs_location_check [where job = job_without_location and L = sample_library
      and clock = sample_clock and st = fresh_state and sanitized_job = s and params = ps
      and vals = vals and db = empty_database
      and jobs_data = "[sample_job, new_york_job, job_without_location]"]
  from t(1) ny have a: "insert_job sample_library sample_clock fresh_state new_york_job
     = fresh_state\<lparr>skipped_count := skipped_count fresh_state + 1\<rparr>"
    by blast
  from t(2) nb have b: "insert_job sample_library sample_clock fresh_state numbered_job
     = fresh_state"
    by blast
  from t(3) falsy have c: "skipped_count
      (insert_job sample_library sample_clock fresh_state job_without_location)
     = skipped_count fresh_state"
    by blast
  from t(3) falsy s ps vals free
  have i: "insert_job sample_library sample_clock fresh_state job_without_location =
      fresh_state\<lparr>conn := \<lparr>rows = rows (conn fresh_state)
            @ [new_row sample_clock (seq (conn fresh_state) + 1) vals],
          seq = seq (conn fresh_state) + 1\<rparr>,
        inserted_count := inserted_count fresh_state + 1\<rparr>"
    and l: "new_row sample_clock (seq (conn fresh_state) + 1) vals ''location'' =
      (if dict_get job_without_location ''location'' = PNone then SNull
       else SText (py_strip (py_str sample_library (dict_get job_without_location ''location''))))"
    by blast+
  from i have d: "inserted_count
      (insert_job sample_library sample_clock fresh_state job_without_location)
     = inserted_count fresh_state + 1"
    by simp
  from i l none fresh have e: "map (\<lambda>r. r ''location'')
       (rows (conn (insert_job sample_library sample_clock fresh_state job_without_location)))
     = [SNull]"
    by simp
  from t(3) empty have f: "list_all (location_admitted sample_library)
        (rows (conn (insert_jobs sample_library sample_clock empty_database
          [sample_job, new_york_job, job_without_location])))"
    unfolding list_all_iff by blast
  show ?thesis
    by (intro conjI) (rule a, rule b, rule c, rule d, rule e, rule f)
qed

text \<open>
  The claim as stated fails for a record without location: the classifier answers false
  for its location, and the record is inserted, not skipped.
\<close>

theorem insert_jobs_missing_location_counterexample:
  "validate_sea_country (dict_get job_without_location ''location'') = Inr False
   \<and> inserted_count (insert_jobs sample_library sample_clock empty_database
        [job_without_location]) = 1
   \<and> skipped_count (insert_jobs sample_library sample_clock empty_database
        [job_without_location]) = 0
   \<and> map (\<lambda>r. r ''location'') (rows (conn (insert_jobs sample_library sample_clock
        empty_database [job_without_location]))) = [SNull]"
  by code_simp

section \<open>Statistics\<close>

lemma get_statistics_returns: "\<exists>s. get_statistics L db = Inr s"
  by (simp add: get_statistics_def Let_def py_truediv_def)

lemma get_statistics_empty:
  "get_statistics L empty_database =
     Inr \<lparr>total_jobs = 0, jobs_by_country = [], jobs_by_site = [], remote_percentage = 0,
          salary_stats = no_salary_statistics\<rparr>"
  by (simp add: get_statistics_def empty_database_def group_counts_def no_salary_statistics_def)

lemma get_statistics_no_salary:
  assumes "\<forall>r\<in>set (rows db). r ''min_amount'' = SNull \<and> r ''max_amount'' = SNull"
  shows "\<exists>s. get_statistics L db = Inr s \<and> salary_stats s = no_salary_statistics"
proof -
  from assms have "filter (\<lambda>r. r ''min_amount'' \<noteq> SNull \<or> r ''max_amount'' \<noteq> SNull) (rows db) = []"
    by (simp add: filter_empty_conv)
  then show ?thesis
    by (simp add: get_statistics_def Let_def py_truediv_def no_salary_statistics_def)
qed

text \<open>
  C7. On the empty store the statistics are \<open>total_jobs = 0\<close>, \<open>remote_percentage = 0\<close>
  and every salary aggregate zero. Whenever no row has salary data the salary
  aggregates are all zero. On every store \<open>get_statistics\<close> returns: no division by zero
  is raised, both divisions being guarded by \<open>total_jobs > 0\<close>.
\<close>

theorem get_statistics_guarded:
  "get_statistics L empty_database =
     Inr \<lparr>total_jobs = 0, jobs_by_country = [], jobs_by_site = [], remote_percentage = 0,
          salary_stats = no_salary_statistics\<rparr>
   \<and> avg_min_salary no_salary_statistics = 0 \<and> avg_max_salary no_salary_statistics = 0
   \<and> min_salary no_salary_statistics = Some 0 \<and> max_salary no_salary_statistics = Some 0
   \<and> jobs_with_salary no_salary_statistics = 0
   \<and> percentage_with_salary no_salary_statistics = 0
   \<and> ((\<forall>r\<in>set (rows db). r ''min_amount'' = SNull \<and> r ''max_amount'' = SNull)
      \<longrightarrow> (\<exists>s. get_statistics L db = Inr s \<and> salary_stats s = no_salary_statistics))
   \<and> (\<exists>s. get_statistics L db = Inr s)"
  using get_statistics_empty get_statistics_no_salary get_statistics_returns
  by (simp add: no_salary_statistics_def)

theorem get_statistics_guarded_witness:
  "(\<exists>s. get_statistics sample_library \<lparr>rows = [plain_row], seq = 2\<rparr> = Inr s
        \<and> salary_stats s = no_salary_statistics \<and> total_jobs s = 1
        \<and> remote_percentage s = 100)
   \<and> (\<exists>s. get_statistics sample_library sample_store = Inr s
        \<and> jobs_with_salary (salary_stats s) = 1
        \<and> percentage_with_salary (salary_stats s) = 50)"
proof -
  have "list_all (\<lambda>r. r ''min_amount'' = SNull \<and> r ''max_amount'' = SNull) [plain_row]"
    by (simp add: plain_row_def row_of_def set_column_def)
  then have "\<forall>r\<in>set (rows \<lparr>rows = [plain_row], seq = 2\<rparr>).
      r ''min_amount'' = SNull \<and> r ''max_amount'' = SNull"
    by simp
  with get_statistics_guarded [of sample_library "\<lparr>rows = [plain_row], seq = 2\<rparr>"]
  obtain s where s: "get_statistics sample_library \<lparr>rows = [plain_row], seq = 2\<rparr> = Inr s"
    "salary_stats s = no_salary_statistics"
    by blast
  have "map_sum id (\<lambda>s. (total_jobs s, remote_percentage s))
          (get_statistics sample_library \<lparr>rows = [plain_row], seq = 2\<rparr>) = Inr (1, 100)"
    by code_simp
  with s have one: "total_jobs s = 1" "remote_percentage s = 100"
    by simp_all
  have "map_sum id (\<lambda>s. (jobs_with_salary (salary_stats s), percentage_with_salary (salary_stats s)))
          (get_statistics sample_library sample_store) = Inr (1, 50)"
    by code_simp
  moreover obtain t where "get_statistics sample_library sample_store = Inr t"
    using get_statistics_returns by blast
  ultimately have "\<exists>s. get_statistics sample_library sample_store = Inr s
        \<and> jobs_with_salary (salary_stats s) = 1
        \<and> percentage_with_salary (salary_stats s) = 50"
    by simp
  with s one show ?thesis
    by blast
qed

section \<open>Search\<close>

lemma search_jobs_eq:
  "search_jobs L db filters page per_page =
     (case where_clauses L filters of
        Inl e \<Rightarrow> Inl e
      | Inr clauses \<Rightarrow>
          (case sort_direction filters of
             Inl e \<Rightarrow> Inl e
           | Inr d \<Rightarrow>
               (case bind_clauses clauses of
                  Inl e \<Rightarrow> Inl e
                | Inr conds \<Rightarrow>
                    (case bind_all [PInt per_page, PInt ((page - 1) * per_page)] of
                       Inl e \<Rightarrow> Inl e
                     | Inr limits \<Rightarrow>
                         Inr (limit_offset per_page ((page - 1) * per_page)
                                (ordered_matches L db filters),
                              length (filter (matches L filters) (rows db)))))))"
proof (cases "where_clauses L filters")
  case (Inl e)
  then show ?thesis
    by (simp add: search_jobs_def)
next
  case w: (Inr clauses)
  show ?thesis
  proof (cases "sort_direction filters")
    case (Inl e)
    with w show ?thesis
      by (simp add: search_jobs_def)
  next
    case d: (Inr dir)
    show ?thesis
    proof (cases "bind_clauses clauses")
      case (Inl e)
      with w d show ?thesis
        by (simp add: search_jobs_def)
    next
      case b: (Inr conds)
      have m: "matches L filters = selected L conds"
        by (rule ext) (simp add: matches_def w b)
      show ?thesis
        by (simp add: search_jobs_def ordered_matches_def m w d b Let_def)
    qed
  qed
qed

lemma search_jobs_result:
  assumes "search_jobs L db filters page per_page = Inr (jobs, total_count)"
  shows "total_count = length (filter (matches L filters) (rows db))"
    and "jobs = limit_offset per_page ((page - 1) * per_page) (ordered_matches L db filters)"
  using assms unfolding search_jobs_eq by (auto split: sum.splits)

lemma length_limit_offset:
  "0 \<le> l \<Longrightarrow> int (length (limit_offset l off xs)) \<le> l"
  by (simp add: limit_offset_def Let_def)

lemma get_jobs_pagination_cap:
  "get_jobs_pagination L m args = Inr (p, pp) \<Longrightarrow> pp \<le> m"
  by (auto simp: get_jobs_pagination_def split: sum.splits)

lemma get_jobs_pagination_per_page:
  assumes "get_jobs_pagination L m args = Inr (p, pp)" "args ''per_page'' = Some s"
    and "int_of_str L s = Some n"
  shows "pp = min n m"
  using assms by (auto simp: get_jobs_pagination_def split: sum.splits option.splits)

text \<open>
  C6. A search that returns gives as \<open>total_count\<close> the number of rows the filters
  select, whatever the page and the page size; with a page size that is not negative
  the list has at most that many rows, and it is the slice of the ordered matches that
  starts at \<open>(page - 1) * per_page\<close>, so that page 1 starts at the first row. The route
  caps the page size by the configured maximum, and only from above: a page size below
  0 goes through as it is, the engine reads it as no limit, and the list is every
  ordered match from the offset on, which can be more rows than the page size.
\<close>

theorem search_jobs_pagination:
  "(search_jobs L db filters page per_page = Inr (jobs, total_count)
      \<longrightarrow> total_count = length (filter (matches L filters) (rows db))
        \<and> (0 \<le> per_page \<longrightarrow> int (length jobs) \<le> per_page
            \<and> jobs = take (nat per_page)
                 (drop (nat ((page - 1) * per_page)) (ordered_matches L db filters)))
        \<and> (per_page < 0 \<longrightarrow>
              jobs = drop (nat ((page - 1) * per_page)) (ordered_matches L db filters)))
   \<and> (search_jobs L db filters page per_page = Inr (jobs, total_count)
        \<and> search_jobs L db filters page' per_page' = Inr (jobs', total_count')
      \<longrightarrow> total_count' = total_count)
   \<and> (get_jobs_pagination L max_results args = Inr (p, pp) \<longrightarrow> pp \<le> max_results)
   \<and> (get_jobs_pagination L max_results args = Inr (p, pp)
        \<and> args ''per_page'' = Some s \<and> int_of_str L s = Some n
      \<longrightarrow> pp = min n max_results)"
proof (intro conjI impI)
  assume s: "search_jobs L db filters page per_page = Inr (jobs, total_count)"
  show "total_count = length (filter (matches L filters) (rows db))"
    using search_jobs_result(1) [OF s] .
  {
    assume "0 \<le> per_page"
    then show "int (length jobs) \<le> per_page"
      unfolding search_jobs_result(2) [OF s] by (rule length_limit_offset)
    from \<open>0 \<le> per_page\<close> show "jobs = take (nat per_page)
        (drop (nat ((page - 1) * per_page)) (ordered_matches L db filters))"
      unfolding search_jobs_result(2) [OF s] by (simp add: limit_offset_def Let_def)
  }
  assume "per_page < 0"
  then show "jobs = drop (nat ((page - 1) * per_page)) (ordered_matches L db filters)"
    unfolding search_jobs_result(2) [OF s] by (simp add: limit_offset_def Let_def)
next
  assume "search_jobs L db filters page per_page = Inr (jobs, total_count)
        \<and> search_jobs L db filters page' per_page' = Inr (jobs', total_count')"
  then show "total_count' = total_count"
    using search_jobs_result(1) by blast
next
  assume "get_jobs_pagination L max_results args = Inr (p, pp)"
  then show "pp \<le> max_results"
    by (rule get_jobs_pagination_cap)
next
  assume "get_jobs_pagination L max_results args = Inr (p, pp)
        \<and> args ''per_page'' = Some s \<and> int_of_str L s = Some n"
  then show "pp = min n max_results"
    using get_jobs_pagination_per_page by blast
qed

theorem search_jobs_pagination_witness:
  "result_ids (search_jobs sample_library sample_store Map.empty 1 1) = Inr ([SInt 2], 2)
   \<and> result_ids (search_jobs sample_library sample_store Map.empty 2 1) = Inr ([SInt 1], 2)
   \<and> length (filter (matches sample_library Map.empty) (rows sample_store)) = 2
   \<and> get_jobs_pagination (sample_library\<lparr>int_of_str := (\<lambda>s. Some (- 1))\<rparr>) 200
         [''per_page'' \<mapsto> ''-1''] = Inr (1, - 1)
   \<and> min (- 1) 200 = (- 1 :: int)
   \<and> (\<exists>jobs. search_jobs sample_library sample_store Map.empty 1 (- 1) = Inr (jobs, 2)
         \<and> jobs = drop (nat ((1 - 1) * (- 1)))
                    (ordered_matches sample_library sample_store Map.empty)
         \<and> map (\<lambda>r. r ''id'') jobs = [SInt 2, SInt 1])"
proof -
  have a: "result_ids (search_jobs sample_library sample_store Map.empty 1 1) = Inr ([SInt 2], 2)"
    by code_simp
  have b: "result_ids (search_jobs sample_library sample_store Map.empty 2 1) = Inr ([SInt 1], 2)"
    by code_simp
  obtain jobs where j: "search_jobs sample_library sample_store Map.empty 1 1 = Inr (jobs, 2)"
  proof (cases "search_jobs sample_library sample_store Map.empty 1 1")
    case (Inl e)
    with a show ?thesis
      by (simp add: result_ids_def)
  next
    case (Inr res)
    obtain js n where res: "res = (js, n)"
      by (cases res)
    with Inr a have "n = 2"
      by (simp add: result_ids_def)
    with Inr res have "search_jobs sample_library sample_store Map.empty 1 1 = Inr (js, 2)"
      by simp
    then show ?thesis
      by (rule that)
  qed
  have "2 = length (filter (matches sample_library Map.empty) (rows sample_store))"
    using search_jobs_pagination [of sample_library sample_store Map.empty 1 1 jobs 2] j
    by blast
  then have c: "length (filter (matches sample_library Map.empty) (rows sample_store)) = 2"
    by (rule sym)
  have d: "get_jobs_pagination (sample_library\<lparr>int_of_str := (\<lambda>s. Some (- 1))\<rparr>) 200
         [''per_page'' \<mapsto> ''-1''] = Inr (1, - 1)"
    by (simp add: get_jobs_pagination_def)
  have e: "min (- 1) 200 = (- 1 :: int)"
    by simp
  have n: "result_ids (search_jobs sample_library sample_store Map.empty 1 (- 1))
      = Inr ([SInt 2, SInt 1], 2)"
    by code_simp
  obtain all_jobs where k: "search_jobs sample_library sample_store Map.empty 1 (- 1)
      = Inr (all_jobs, 2)" and ids: "map (\<lambda>r. r ''id'') all_jobs = [SInt 2, SInt 1]"
  proof (cases "search_jobs sample_library sample_store Map.empty 1 (- 1)")
    case (Inl e)
    with n show ?thesis
      by (simp add: result_ids_def)
  next
    case (Inr res)
    obtain js m where res: "res = (js, m)"
      by (cases res)
    with Inr n have "m = 2" "map (\<lambda>r. r ''id'') js = [SInt 2, SInt 1]"
      by (simp_all add: result_ids_def)
    with Inr res show ?thesis
      by (intro that [of js]) simp_all
  qed
  have neg: "(- 1 :: int) < 0"
    by simp
  have g: "all_jobs = drop (nat ((1 - 1) * (- 1)))
      (ordered_matches sample_library sample_store Map.empty)"
    using search_jobs_pagination [of sample_library sample_store Map.empty 1 "- 1" all_jobs 2]
      k neg
    by blast
  have f: "\<exists>jobs. search_jobs sample_library sample_store Map.empty 1 (- 1)
         = Inr (jobs, 2)
       \<and> jobs = drop (nat ((1 - 1) * (- 1)))
                  (ordered_matches sample_library sample_store Map.empty)
       \<and> map (\<lambda>r. r ''id'') jobs = [SInt 2, SInt 1]"
    by (intro exI [of _ all_jobs] conjI) (rule k, rule g, rule ids)
  show ?thesis
    by (intro conjI) (rule a, rule b, rule c, rule d, rule e, rule f)
qed

text \<open>
  The bound of the claim fails for a negative page size, which is below the maximum:
  both rows come back for page size -1.
\<close>

theorem search_jobs_negative_page_size_counterexample:
  "(- 1 :: int) \<le> 200
   \<and> (case search_jobs sample_library sample_store Map.empty 1 (- 1) of
        Inl e \<Rightarrow> False
      | Inr (jobs, total_count) \<Rightarrow> length jobs = 2 \<and> \<not> int (length jobs) \<le> - 1)"
  by code_simp

section \<open>Falsy filter values\<close>

lemma like_clause_falsy:
  "\<not> truthy v \<Longrightarrow> like_clause L (f(k \<mapsto> v)) key c = like_clause L (f(k := None)) key c"
  by (cases "k = key") (simp_all add: like_clause_def dict_get_def)

lemma equals_clause_falsy:
  "\<not> truthy v \<Longrightarrow> equals_clause (f(k \<mapsto> v)) key c = equals_clause (f(k := None)) key c"
  by (cases "k = key") (simp_all add: equals_clause_def dict_get_def)

lemma is_remote_clause_falsy:
  "\<not> truthy v \<Longrightarrow> is_remote_clause L (f(k \<mapsto> v)) = is_remote_clause L (f(k := None))"
  by (cases "k = ''is_remote''") (simp_all add: is_remote_clause_def dict_get_def)

lemma min_salary_clause_falsy:
  "\<not> truthy v \<Longrightarrow> min_salary_clause L (f(k \<mapsto> v)) = min_salary_clause L (f(k := None))"
  by (cases "k = ''min_salary''") (simp_all add: min_salary_clause_def dict_get_def)

lemma max_salary_clause_falsy:
  "\<not> truthy v \<Longrightarrow> max_salary_clause L (f(k \<mapsto> v)) = max_salary_clause L (f(k := None))"
  by (cases "k = ''max_salary''") (simp_all add: max_salary_clause_def dict_get_def)

lemma days_old_clause_falsy:
  "\<not> truthy v \<Longrightarrow> days_old_clause L (f(k \<mapsto> v)) = days_old_clause L (f(k := None))"
  by (cases "k = ''days_old''") (simp_all add: days_old_clause_def dict_get_def)

lemma where_clauses_falsy:
  assumes "\<not> truthy v"
  shows "where_clauses L (f(k \<mapsto> v)) = where_clauses L (f(k := None))"
  unfolding where_clauses_def like_clause_falsy [OF assms] equals_clause_falsy [OF assms]
    is_remote_clause_falsy [OF assms] min_salary_clause_falsy [OF assms]
    max_salary_clause_falsy [OF assms] days_old_clause_falsy [OF assms] ..

lemma sort_unaffected:
  assumes "k \<noteq> ''sort_by''" "k \<noteq> ''sort_order''"
  shows "sort_column (f(k \<mapsto> v)) = sort_column (f(k := None))"
    and "sort_direction (f(k \<mapsto> v)) = sort_direction (f(k := None))"
  using assms by (simp_all add: sort_column_def sort_direction_def dict_get_default_def)

text \<open>
  C10. For each of the ten filters that add a condition to the WHERE clause, a falsy
  value (\<open>None\<close>, the empty string, the number 0, \<open>False\<close>) gives exactly the search
  that leaving the filter out gives: the same rows, the same total count, and the same
  exception if one is raised.
\<close>

theorem search_jobs_falsy_filter:
  assumes "key \<in> set filter_keys" "\<not> truthy v"
  shows "search_jobs L db (filters(key \<mapsto> v)) page per_page
         = search_jobs L db (filters(key := None)) page per_page"
proof -
  from assms(1) have k: "key \<noteq> ''sort_by''" "key \<noteq> ''sort_order''"
    by (auto simp: filter_keys_def)
  show ?thesis
    unfolding search_jobs_def where_clauses_falsy [OF assms(2)] sort_unaffected [OF k] ..
qed

theorem search_jobs_falsy_filter_witness:
  "search_jobs sample_library sample_store [''min_salary'' \<mapsto> PInt 0] 1 20
     = search_jobs sample_library sample_store Map.empty 1 20
   \<and> search_jobs sample_library sample_store [''is_remote'' \<mapsto> PBool False] 1 20
     = search_jobs sample_library sample_store Map.empty 1 20
   \<and> search_jobs sample_library sample_store [''title'' \<mapsto> PStr []] 1 20
     = search_jobs sample_library sample_store Map.empty 1 20
   \<and> result_ids (search_jobs sample_library sample_store Map.empty 1 20)
     = Inr ([SInt 2, SInt 1], 2)"
proof -
  have keys: "''min_salary'' \<in> set filter_keys" "''is_remote'' \<in> set filter_keys"
    "''title'' \<in> set filter_keys"
    by (simp_all add: filter_keys_def)
  have falsy: "\<not> truthy (PInt 0)" "\<not> truthy (PBool False)" "\<not> truthy (PStr [])"
    by simp_all
  have e: "\<And>k. (Map.empty :: pydict)(k := None) = Map.empty"
    by simp
  note search_jobs_falsy_filter [OF keys(1) falsy(1), of sample_library sample_store Map.empty 1 20]
    search_jobs_falsy_filter [OF keys(2) falsy(2), of sample_library sample_store Map.empty 1 20]
    search_jobs_falsy_filter [OF keys(3) falsy(3), of sample_library sample_store Map.empty 1 20]
  note eqs = this [unfolded e]
  have ids: "result_ids (search_jobs sample_library sample_store Map.empty 1 20)
     = Inr ([SInt 2, SInt 1], 2)"
    by code_simp
  show ?thesis
    by (intro conjI) (rule eqs(1), rule eqs(2), rule eqs(3), rule ids)
qed

section \<open>Ordering of the results\<close>

lemma sorted_wrt_limit_offset:
  "sorted_wrt P xs \<Longrightarrow> sorted_wrt P (limit_offset l off xs)"
  by (simp add: limit_offset_def Let_def sorted_wrt_take sorted_wrt_drop)

lemma sort_key_fst:
  "sorted_wrt (\<lambda>a b. f a \<le> f b) (sort_key (\<lambda>r. (f r, g r)) rs)"
proof -
  have "sorted (map (\<lambda>r. (f r, g r)) (sort_key (\<lambda>r. (f r, g r)) rs))"
    by (rule sorted_sort_key)
  then have "sorted_wrt (\<lambda>a b. (f a, g a) \<le> (f b, g b)) (sort_key (\<lambda>r. (f r, g r)) rs)"
    by (simp add: sorted_map)
  then show ?thesis
    by (rule sorted_wrt_mono_rel [rotated]) (auto simp: less_eq_prod_def)
qed

lemma order_by_sorted:
  "if d = ''ASC''
   then sorted_wrt (\<lambda>a b. sql_key (a c) \<le> sql_key (b c)) (order_by L w c d t rs)
   else sorted_wrt (\<lambda>a b. sql_key (b c) \<le> sql_key (a c)) (order_by L w c d t rs)"
proof (cases "d = ''ASC''")
  case True
  then show ?thesis
    using sort_key_fst [of "\<lambda>r. sql_key (r c)"
        "tie_rank L w (order_clause c d) t" rs]
    by (simp add: order_by_def Let_def)
next
  case False
  then show ?thesis
    using sort_key_fst [of "\<lambda>r. sql_key (r c)"
        "\<lambda>r. - tie_rank L w (order_clause c d) t r" rs]
    by (simp add: order_by_def Let_def sorted_wrt_rev)
qed

lemma order_by_set: "set (order_by L w c d t rs) = set rs"
  and order_by_length: "length (order_by L w c d t rs) = length rs"
  by (simp_all add: order_by_def Let_def)

lemma ordered_matches_sorted:
  assumes "sort_direction filters = Inr d"
  shows "if d = ''ASC''
   then sorted_wrt (\<lambda>a b. sql_key (a (sort_column filters)) \<le> sql_key (b (sort_column filters)))
          (ordered_matches L db filters)
   else sorted_wrt (\<lambda>a b. sql_key (b (sort_column filters)) \<le> sql_key (a (sort_column filters)))
          (ordered_matches L db filters)"
proof (cases "where_clauses L filters")
  case (Inl e)
  then show ?thesis
    by (simp add: ordered_matches_def)
next
  case (Inr clauses)
  then have e: "ordered_matches L db filters =
      order_by L (where_clause clauses) (sort_column filters) d (rows db)
        (filter (matches L filters) (rows db))"
    using assms by (simp add: ordered_matches_def)
  show ?thesis
    unfolding e by (rule order_by_sorted)
qed

lemma search_jobs_sorted:
  assumes "search_jobs L db filters page per_page = Inr (jobs, total_count)"
    and "sort_direction filters = Inr d"
  shows "if d = ''ASC''
   then sorted_wrt (\<lambda>a b. sql_key (a (sort_column filters)) \<le> sql_key (b (sort_column filters))) jobs
   else sorted_wrt (\<lambda>a b. sql_key (b (sort_column filters)) \<le> sql_key (a (sort_column filters))) jobs"
proof (cases "d = ''ASC''")
  case True
  with ordered_matches_sorted [OF assms(2), of L db] show ?thesis
    unfolding search_jobs_result(2) [OF assms(1)] by (simp add: sorted_wrt_limit_offset)
next
  case False
  with ordered_matches_sorted [OF assms(2), of L db] show ?thesis
    unfolding search_jobs_result(2) [OF assms(1)] by (simp add: sorted_wrt_limit_offset)
qed

lemma sort_column_valid:
  "s \<in> set valid_sort_fields \<Longrightarrow> sort_column (filters(''sort_by'' \<mapsto> PStr s)) = s"
  by (simp add: sort_column_def dict_get_default_def)

lemma sort_column_fallback:
  "v \<notin> PStr ` set valid_sort_fields \<Longrightarrow> sort_column (filters(''sort_by'' \<mapsto> v)) = ''scraped_at''"
  by (cases v) (auto simp: sort_column_def dict_get_default_def)

lemma sort_column_default:
  "sort_column (filters(''sort_by'' := None)) = ''scraped_at''"
  "sort_column (filters(''sort_by'' \<mapsto> PStr ''scraped_at'')) = ''scraped_at''"
  by (simp_all add: sort_column_def dict_get_default_def valid_sort_fields_def)

lemma where_clauses_cong:
  assumes "\<And>k. k \<in> set filter_keys \<Longrightarrow> f k = g k"
  shows "where_clauses L f = where_clauses L g"
proof -
  have d: "dict_get f k = dict_get g k" if "k \<in> set filter_keys" for k
    using assms [OF that] by (simp add: dict_get_def)
  have eqs: "like_clause L f ''title'' c = like_clause L g ''title'' c"
    "like_clause L f ''company'' c = like_clause L g ''company'' c"
    "like_clause L f ''location'' c = like_clause L g ''location'' c"
    "like_clause L f ''country'' c = like_clause L g ''country'' c"
    "equals_clause f ''job_type'' c = equals_clause g ''job_type'' c"
    "equals_clause f ''site'' c = equals_clause g ''site'' c"
    "is_remote_clause L f = is_remote_clause L g"
    "min_salary_clause L f = min_salary_clause L g"
    "max_salary_clause L f = max_salary_clause L g"
    "days_old_clause L f = days_old_clause L g" for c
    unfolding like_clause_def equals_clause_def is_remote_clause_def min_salary_clause_def
      max_salary_clause_def days_old_clause_def
    by (simp_all add: d filter_keys_def)
  show ?thesis
    unfolding where_clauses_def by (simp only: eqs)
qed

lemma sort_by_elsewhere:
  "where_clauses L (filters(''sort_by'' \<mapsto> v)) = where_clauses L (filters(''sort_by'' \<mapsto> v'))"
  "sort_direction (filters(''sort_by'' \<mapsto> v)) = sort_direction (filters(''sort_by'' \<mapsto> v'))"
proof -
  show "where_clauses L (filters(''sort_by'' \<mapsto> v)) = where_clauses L (filters(''sort_by'' \<mapsto> v'))"
    by (rule where_clauses_cong) (auto simp: filter_keys_def)
  show "sort_direction (filters(''sort_by'' \<mapsto> v)) = sort_direction (filters(''sort_by'' \<mapsto> v'))"
    by (simp add: sort_direction_def dict_get_default_def)
qed

lemma search_jobs_fallback:
  assumes "v \<notin> PStr ` set valid_sort_fields"
  shows "search_jobs L db (filters(''sort_by'' \<mapsto> v)) page per_page
         = search_jobs L db (filters(''sort_by'' \<mapsto> PStr ''scraped_at'')) page per_page"
  unfolding search_jobs_def sort_column_fallback [OF assms] sort_column_default
    sort_by_elsewhere(1) [of L filters v "PStr ''scraped_at''"]
    sort_by_elsewhere(2) [of filters v "PStr ''scraped_at''"] ..

lemma sort_direction_cases:
  "sort_direction (filters(''sort_order'' := None)) = Inr ''DESC''"
  "sort_direction (filters(''sort_order'' \<mapsto> PStr s)) =
     Inr (if py_upper s = ''ASC'' then ''ASC'' else ''DESC'')"
  by (simp_all add: sort_direction_def dict_get_default_def char_eval)

text \<open>
  C5, as the code has it. The rows a search returns are in the order of the sort
  column, ascending when \<open>sort_order\<close> is the string \<open>asc\<close> in any letter case, and
  descending when it is any other string or absent. The sort column is the value of \<open>sort_by\<close> when
  that is one of \<open>title\<close>, \<open>company_name\<close>, \<open>location\<close>, \<open>min_amount\<close>, \<open>max_amount\<close>,
  \<open>date_posted\<close>, \<open>scraped_at\<close>, and \<open>scraped_at\<close> when \<open>sort_by\<close> is absent; every other
  value of \<open>sort_by\<close>, the word \<open>company\<close> among them, gives the very search that
  \<open>sort_by = scraped_at\<close> gives, with no exception of its own.
\<close>

theorem search_jobs_ordering:
  "(search_jobs L db filters page per_page = Inr (jobs, total_count)
      \<and> sort_direction filters = Inr d
    \<longrightarrow> (if d = ''ASC''
         then sorted_wrt (\<lambda>a b. sql_key (a (sort_column filters))
                                 \<le> sql_key (b (sort_column filters))) jobs
         else sorted_wrt (\<lambda>a b. sql_key (b (sort_column filters))
                                 \<le> sql_key (a (sort_column filters))) jobs))
   \<and> (s \<in> set valid_sort_fields \<longrightarrow> sort_column (filters(''sort_by'' \<mapsto> PStr s)) = s)
   \<and> sort_column (filters(''sort_by'' := None)) = ''scraped_at''
   \<and> (v \<notin> PStr ` set valid_sort_fields
    \<longrightarrow> sort_column (filters(''sort_by'' \<mapsto> v)) = ''scraped_at''
      \<and> search_jobs L db (filters(''sort_by'' \<mapsto> v)) page per_page
        = search_jobs L db (filters(''sort_by'' \<mapsto> PStr ''scraped_at'')) page per_page)
   \<and> sort_direction (filters(''sort_order'' := None)) = Inr ''DESC''
   \<and> sort_direction (filters(''sort_order'' \<mapsto> PStr so))
       = Inr (if py_upper so = ''ASC'' then ''ASC'' else ''DESC'')
   \<and> set valid_sort_fields
       = {''title'', ''company_name'', ''location'', ''min_amount'', ''max_amount'',
          ''date_posted'', ''scraped_at''}"
proof (intro conjI impI)
  assume "search_jobs L db filters page per_page = Inr (jobs, total_count)
      \<and> sort_direction filters = Inr d"
  then show "if d = ''ASC''
         then sorted_wrt (\<lambda>a b. sql_key (a (sort_column filters))
                                 \<le> sql_key (b (sort_column filters))) jobs
         else sorted_wrt (\<lambda>a b. sql_key (b (sort_column filters))
                                 \<le> sql_key (a (sort_column filters))) jobs"
    using search_jobs_sorted by blast
next
  assume "s \<in> set valid_sort_fields"
  then show "sort_column (filters(''sort_by'' \<mapsto> PStr s)) = s"
    by (rule sort_column_valid)
next
  show "sort_column (filters(''sort_by'' := None)) = ''scraped_at''"
    by (rule sort_column_default(1))
next
  assume v: "v \<notin> PStr ` set valid_sort_fields"
  then show "sort_column (filters(''sort_by'' \<mapsto> v)) = ''scraped_at''"
    by (rule sort_column_fallback)
  from v show "search_jobs L db (filters(''sort_by'' \<mapsto> v)) page per_page
        = search_jobs L db (filters(''sort_by'' \<mapsto> PStr ''scraped_at'')) page per_page"
    by (rule search_jobs_fallback)
next
  show "sort_direction (filters(''sort_order'' := None)) = Inr ''DESC''"
    by (rule sort_direction_cases(1))
next
  show "sort_direction (filters(''sort_order'' \<mapsto> PStr so))
       = Inr (if py_upper so = ''ASC'' then ''ASC'' else ''DESC'')"
    by (rule sort_direction_cases(2))
next
  show "set valid_sort_fields
       = {''title'', ''company_name'', ''location'', ''min_amount'', ''max_amount'',
          ''date_posted'', ''scraped_at''}"
    by (simp add: valid_sort_fields_def)
qed

theorem search_jobs_ordering_witness:
  "(\<exists>jobs. search_jobs sample_library sample_store
        [''sort_by'' \<mapsto> PStr ''company_name'', ''sort_order'' \<mapsto> PStr ''asc''] 1 20
        = Inr (jobs, 2)
      \<and> sorted_wrt (\<lambda>a b. sql_key (a ''company_name'') \<le> sql_key (b ''company_name'')) jobs
      \<and> map (\<lambda>r. r ''company_name'') jobs = [SText ''Alpha'', SText ''Zeta''])
   \<and> sort_column [''sort_by'' \<mapsto> PStr ''company_name''] = ''company_name''
   \<and> search_jobs sample_library sample_store [''sort_by'' \<mapsto> PStr ''company''] 1 20
     = search_jobs sample_library sample_store [''sort_by'' \<mapsto> PStr ''scraped_at''] 1 20
   \<and> result_ids (search_jobs sample_library sample_store [''sort_by'' \<mapsto> PStr ''scraped_at'']
        1 20) = Inr ([SInt 2, SInt 1], 2)"
proof -
  let ?f = "[''sort_by'' \<mapsto> PStr ''company_name'', ''sort_order'' \<mapsto> PStr ''asc'']"
  have col: "sort_column ?f = ''company_name''"
    by (simp add: sort_column_def dict_get_default_def valid_sort_fields_def)
  have dir: "sort_direction ?f = Inr ''ASC''"
    by (simp add: sort_direction_def dict_get_default_def char_eval)
  have n: "(case search_jobs sample_library sample_store ?f 1 20 of
             Inl e \<Rightarrow> Inl e
           | Inr (jobs, n) \<Rightarrow> Inr (map (\<lambda>r. r ''company_name'') jobs, n))
      = Inr ([SText ''Alpha'', SText ''Zeta''], 2)"
    by code_simp
  obtain js where k: "search_jobs sample_library sample_store ?f 1 20 = Inr (js, 2)"
    and names: "map (\<lambda>r. r ''company_name'') js = [SText ''Alpha'', SText ''Zeta'']"
  proof (cases "search_jobs sample_library sample_store ?f 1 20")
    case (Inl e)
    with n show ?thesis
      by simp
  next
    case (Inr res)
    obtain js m where res: "res = (js, m)"
      by (cases res)
    with Inr n have "m = 2" "map (\<lambda>r. r ''company_name'') js = [SText ''Alpha'', SText ''Zeta'']"
      by simp_all
    with Inr res show ?thesis
      by (intro that [of js]) simp_all
  qed
  have "search_jobs sample_library sample_store ?f 1 20 = Inr (js, 2)
      \<and> sort_direction ?f = Inr ''ASC''
    \<longrightarrow> (if ''ASC'' = ''ASC''
         then sorted_wrt (\<lambda>a b. sql_key (a (sort_column ?f)) \<le> sql_key (b (sort_column ?f))) js
         else sorted_wrt (\<lambda>a b. sql_key (b (sort_column ?f)) \<le> sql_key (a (sort_column ?f))) js)"
    using search_jobs_ordering [where L = sample_library and db = sample_store and filters = ?f
        and page = 1 and per_page = 20 and jobs = js and total_count = 2 and d = "''ASC''"]
    by (rule conjunct1)
  with k dir have "if ''ASC'' = ''ASC''
         then sorted_wrt (\<lambda>a b. sql_key (a (sort_column ?f)) \<le> sql_key (b (sort_column ?f))) js
         else sorted_wrt (\<lambda>a b. sql_key (b (sort_column ?f)) \<le> sql_key (a (sort_column ?f))) js"
    by blast
  then have srt: "sorted_wrt (\<lambda>a b. sql_key (a ''company_name'') \<le> sql_key (b ''company_name'')) js"
    unfolding col by simp
  have a: "\<exists>jobs. search_jobs sample_library sample_store ?f 1 20 = Inr (jobs, 2)
      \<and> sorted_wrt (\<lambda>a b. sql_key (a ''company_name'') \<le> sql_key (b ''company_name'')) jobs
      \<and> map (\<lambda>r. r ''company_name'') jobs = [SText ''Alpha'', SText ''Zeta'']"
    by (intro exI [of _ js] conjI) (rule k, rule srt, rule names)
  have valid: "''company_name'' \<in> set valid_sort_fields"
    by (simp add: valid_sort_fields_def)
  have invalid: "PStr ''company'' \<notin> PStr ` set valid_sort_fields"
    by (simp add: valid_sort_fields_def image_iff)
  note t = search_jobs_ordering [where L = sample_library and db = sample_store
      and filters = Map.empty and page = 1 and per_page = 20 and s = "''company_name''"
      and v = "PStr ''company''"]
  from t valid have b: "sort_column [''sort_by'' \<mapsto> PStr ''company_name''] = ''company_name''"
    by blast
  from t invalid have c: "search_jobs sample_library sample_store
       [''sort_by'' \<mapsto> PStr ''company''] 1 20
     = search_jobs sample_library sample_store [''sort_by'' \<mapsto> PStr ''scraped_at''] 1 20"
    by blast
  have d: "result_ids (search_jobs sample_library sample_store
        [''sort_by'' \<mapsto> PStr ''scraped_at''] 1 20) = Inr ([SInt 2, SInt 1], 2)"
    by code_simp
  show ?thesis
    by (intro conjI) (rule a, rule b, rule c, rule d)
qed

text \<open>
  The claim as stated fails for \<open>sort_by = company\<close>, which it puts on the allow-list:
  asked to sort by \<open>company\<close> ascending, the search answers in the order of \<open>scraped_at\<close>,
  with the company Zeta before the company Alpha.
\<close>

theorem search_jobs_sort_by_company_counterexample:
  "(case search_jobs sample_library sample_store
           [''sort_by'' \<mapsto> PStr ''company'', ''sort_order'' \<mapsto> PStr ''asc''] 1 20 of
      Inl e \<Rightarrow> False
    | Inr (jobs, total_count) \<Rightarrow>
        map (\<lambda>r. r ''company_name'') jobs = [SText ''Zeta'', SText ''Alpha'']
        \<and> map (\<lambda>r. r ''scraped_at'') jobs
            = [SText ''2024-01-01 08:00:00'', SText ''2024-01-02 08:00:00'']
        \<and> \<not> sorted_wrt (\<lambda>a b. sql_key (a ''company_name'') \<le> sql_key (b ''company_name''))
              jobs)"
  by code_simp

section \<open>Salary filters\<close>

lemma where_clauses_min_salary:
  assumes "truthy v" "py_float L v = Inr x"
  shows "where_clauses L [''min_salary'' \<mapsto> v]
         = Inr [(AtLeastEither ''min_amount'' ''max_amount'', [PFloat x, PFloat x])]"
  using assms
  by (simp add: where_clauses_def like_clause_def equals_clause_def is_remote_clause_def
      min_salary_clause_def max_salary_clause_def days_old_clause_def dict_get_def)

lemma where_clauses_max_salary:
  assumes "truthy v" "py_float L v = Inr x"
  shows "where_clauses L [''max_salary'' \<mapsto> v]
         = Inr [(AtMostEither ''min_amount'' ''max_amount'', [PFloat x, PFloat x])]"
  using assms
  by (simp add: where_clauses_def like_clause_def equals_clause_def is_remote_clause_def
      min_salary_clause_def max_salary_clause_def days_old_clause_def dict_get_def)

lemma sql_le_real: "sql_le (SReal s) (SReal x) = Some (s \<le> x)"
  by (auto simp: sql_le_def less_eq_prod_def)

lemma sql_le_null: "sql_le SNull a = None" "sql_le a SNull = None"
  by (simp_all add: sql_le_def)

lemma sql_or_True:
  "sql_or p q = Some True \<longleftrightarrow> p = Some True \<or> q = Some True"
  by (cases "(p, q)" rule: sql_or.cases) auto

lemma either_at_least:
  assumes "stored_amount a" "stored_amount b"
  shows "sql_or (sql_le (SReal s) a) (sql_le (SReal s) b) = Some True
         \<longleftrightarrow> amount_at_least a s \<or> amount_at_least b s"
  using assms
  by (auto simp: stored_amount_def amount_at_least_def sql_or_True sql_le_real sql_le_null)

lemma either_at_most:
  assumes "stored_amount a" "stored_amount b"
  shows "sql_or (sql_le a (SReal s)) (sql_le b (SReal s)) = Some True
         \<longleftrightarrow> amount_at_most a s \<or> amount_at_most b s"
  using assms
  by (auto simp: stored_amount_def amount_at_most_def sql_or_True sql_le_real sql_le_null)

lemma matches_min_salary:
  assumes "truthy v" "py_float L v = Inr (Fin s)"
    and "stored_amount (r ''min_amount'')" "stored_amount (r ''max_amount'')"
  shows "matches L [''min_salary'' \<mapsto> v] r
         \<longleftrightarrow> amount_at_least (r ''min_amount'') s \<or> amount_at_least (r ''max_amount'') s"
  using either_at_least [OF assms(3,4), of s]
  by (simp add: matches_def where_clauses_min_salary [OF assms(1,2)] selected_def)

lemma matches_max_salary:
  assumes "truthy v" "py_float L v = Inr (Fin s)"
    and "stored_amount (r ''min_amount'')" "stored_amount (r ''max_amount'')"
  shows "matches L [''max_salary'' \<mapsto> v] r
         \<longleftrightarrow> amount_at_most (r ''min_amount'') s \<or> amount_at_most (r ''max_amount'') s"
  using either_at_most [OF assms(3,4), of s]
  by (simp add: matches_def where_clauses_max_salary [OF assms(1,2)] selected_def)

lemma set_limit_offset: "set (limit_offset l off xs) \<subseteq> set xs"
  by (auto simp: limit_offset_def Let_def dest: in_set_takeD in_set_dropD)

lemma limit_offset_all: "int (length xs) \<le> l \<Longrightarrow> limit_offset l 0 xs = xs"
  by (simp add: limit_offset_def Let_def)

lemma sort_direction_absent: "filters ''sort_order'' = None \<Longrightarrow> sort_direction filters = Inr ''DESC''"
  by (simp add: sort_direction_def dict_get_default_def char_eval)

lemma ordered_matches_set:
  assumes "search_jobs L db filters page per_page = Inr (jobs, total_count)"
  shows "set (ordered_matches L db filters) = set (filter (matches L filters) (rows db))"
    and "length (ordered_matches L db filters) = total_count"
proof -
  from assms obtain clauses d where "where_clauses L filters = Inr clauses"
    "sort_direction filters = Inr d"
    unfolding search_jobs_eq by (auto split: sum.splits)
  then have e: "ordered_matches L db filters =
      order_by L (where_clause clauses) (sort_column filters) d (rows db)
        (filter (matches L filters) (rows db))"
    by (simp add: ordered_matches_def)
  show "set (ordered_matches L db filters) = set (filter (matches L filters) (rows db))"
    unfolding e by (rule order_by_set)
  show "length (ordered_matches L db filters) = total_count"
    unfolding e order_by_length search_jobs_result(1) [OF assms] ..
qed

lemma search_jobs_selects:
  assumes "search_jobs L db filters page per_page = Inr (jobs, total_count)"
    and "\<And>r. r \<in> set (rows db) \<Longrightarrow> matches L filters r = C r"
  shows "total_count = length (filter C (rows db))"
    and "set jobs \<subseteq> {r \<in> set (rows db). C r}"
    and "page = 1 \<and> int total_count \<le> per_page \<longrightarrow> set jobs = {r \<in> set (rows db). C r}"
proof -
  have f: "filter (matches L filters) (rows db) = filter C (rows db)"
    using assms(2) by (auto intro: filter_cong)
  show "total_count = length (filter C (rows db))"
    unfolding search_jobs_result(1) [OF assms(1)] f ..
  have s: "set (ordered_matches L db filters) = {r \<in> set (rows db). C r}"
    unfolding ordered_matches_set(1) [OF assms(1)] f by auto
  show "set jobs \<subseteq> {r \<in> set (rows db). C r}"
    unfolding search_jobs_result(2) [OF assms(1)] s [symmetric] by (rule set_limit_offset)
  show "page = 1 \<and> int total_count \<le> per_page \<longrightarrow> set jobs = {r \<in> set (rows db). C r}"
  proof
    assume a: "page = 1 \<and> int total_count \<le> per_page"
    then have "int (length (ordered_matches L db filters)) \<le> per_page"
      unfolding ordered_matches_set(2) [OF assms(1)] by simp
    then have "limit_offset per_page 0 (ordered_matches L db filters)
        = ordered_matches L db filters"
      by (rule limit_offset_all)
    with a have "jobs = ordered_matches L db filters"
      unfolding search_jobs_result(2) [OF assms(1)] by simp
    with s show "set jobs = {r \<in> set (rows db). C r}"
      by simp
  qed
qed

lemma bind_limits:
  assumes "- (2 ^ 63) \<le> per_page" "per_page < 2 ^ 63"
    and "- (2 ^ 63) \<le> (page - 1) * per_page" "(page - 1) * per_page < 2 ^ 63"
  shows "bind_all [PInt per_page, PInt ((page - 1) * per_page)]
         = Inr [SInt per_page, SInt ((page - 1) * per_page)]"
  using assms by simp

lemma search_jobs_salary_returns:
  assumes "truthy v" "py_float L v = Inr (Fin s)"
    and "- (2 ^ 63) \<le> per_page" "per_page < 2 ^ 63"
    and "- (2 ^ 63) \<le> (page - 1) * per_page" "(page - 1) * per_page < 2 ^ 63"
  shows "\<exists>jobs n. search_jobs L db [''min_salary'' \<mapsto> v] page per_page = Inr (jobs, n)"
    and "\<exists>jobs n. search_jobs L db [''max_salary'' \<mapsto> v] page per_page = Inr (jobs, n)"
  unfolding search_jobs_eq where_clauses_min_salary [OF assms(1,2)]
    where_clauses_max_salary [OF assms(1,2)] bind_limits [OF assms(3-6)]
  by (simp_all add: sort_direction_absent)

lemma matches_falsy_salary:
  assumes "\<not> truthy v"
  shows "matches L [''min_salary'' \<mapsto> v] r" "matches L [''max_salary'' \<mapsto> v] r"
proof -
  have e: "where_clauses L Map.empty = Inr []"
    by (simp add: where_clauses_def like_clause_def equals_clause_def is_remote_clause_def
        min_salary_clause_def max_salary_clause_def days_old_clause_def dict_get_def)
  have "where_clauses L [''min_salary'' \<mapsto> v] = Inr []"
    "where_clauses L [''max_salary'' \<mapsto> v] = Inr []"
    unfolding where_clauses_falsy [OF assms] by (simp_all add: e)
  then show "matches L [''min_salary'' \<mapsto> v] r" "matches L [''max_salary'' \<mapsto> v] r"
    by (simp_all add: matches_def selected_def)
qed

lemma numeric_fields_loop_value:
  "numeric_fields_loop L job fs s = Inr s' \<Longrightarrow> f \<in> set fs
   \<Longrightarrow> s' f = Some PNone \<or> (\<exists>x. s' f = Some (PFloat x))"
proof (induction fs arbitrary: s)
  case Nil
  then show ?case by simp
next
  case (Cons g fs)
  from Cons.prems(1) obtain v where
    step: "numeric_fields_loop L job fs (s(g \<mapsto> v)) = Inr s'"
    and v: "v = PNone \<or> (\<exists>x. v = PFloat x)"
    by (auto simp: Let_def split: if_splits sum.splits)
  show ?case
  proof (cases "f \<in> set fs")
    case True
    with step show ?thesis
      by (rule Cons.IH)
  next
    case False
    with Cons.prems(2) have "f = g"
      by simp
    with numeric_fields_loop_other [OF step False] v show ?thesis
      by auto
  qed
qed

lemma sanitize_numeric_field:
  assumes "sanitize_job_data L job = Inr s" "f \<in> set numeric_fields"
  shows "s f = Some PNone \<or> (\<exists>x. s f = Some (PFloat x))"
proof -
  from assms(2) have f: "f \<noteq> ''is_remote''"
    by (auto simp: numeric_fields_def)
  from assms(1) obtain s0 s' where
    s': "numeric_fields_loop L job numeric_fields s0 = Inr s'"
    and s: "s = s'(''is_remote'' \<mapsto> sanitize_is_remote L (dict_get job ''is_remote''))"
    by (auto simp: sanitize_job_data_def Let_def split: sum.splits)
  from numeric_fields_loop_value [OF s' assms(2)] f show ?thesis
    unfolding s by simp
qed

lemma prepared_amount:
  assumes "prepared L job = Some vals" "c = ''min_amount'' \<or> c = ''max_amount''"
  shows "stored_amount (new_row clock n vals c)"
proof -
  from assms(1) obtain s ps where s: "sanitize_job_data L job = Inr s"
    and ps: "value_tuple s insert_columns = Inr ps" and vals: "bind_all ps = Inr vals"
    by (auto simp: prepared_def split: if_splits sum.splits)
  have "vals = map (\<lambda>c. projr (sql_bind (the (s c)))) insert_columns"
    using value_tuple_map [OF ps] bind_all_map [OF vals] by simp
  moreover from assms(2) have "c \<in> set insert_columns"
    by (auto simp: insert_columns_def)
  ultimately have r: "new_row clock n vals c = projr (sql_bind (the (s c)))"
    by (simp add: new_row_column)
  from assms(2) have "c \<in> set numeric_fields"
    by (auto simp: numeric_fields_def)
  from sanitize_numeric_field [OF s this] show ?thesis
  proof
    assume "s c = Some PNone"
    then show ?thesis
      unfolding r by (simp add: stored_amount_def)
  next
    assume "\<exists>x. s c = Some (PFloat x)"
    then obtain x where "s c = Some (PFloat x)"
      by blast
    then show ?thesis
      unfolding r by (cases x) (simp_all add: stored_amount_def)
  qed
qed

lemma insert_job_amounts:
  assumes "\<forall>r\<in>set (rows (conn st)).
      stored_amount (r ''min_amount'') \<and> stored_amount (r ''max_amount'')"
  shows "\<forall>r\<in>set (rows (conn (insert_job L clock st job))).
      stored_amount (r ''min_amount'') \<and> stored_amount (r ''max_amount'')"
proof (cases "prepared L job")
  case None
  with assms show ?thesis
    by (simp add: conn_insert_job)
next
  case (Some vals)
  with assms prepared_amount [OF Some] show ?thesis
    by (auto simp: conn_insert_job insert_or_ignore_eq)
qed

lemma batch_loop_amounts:
  "\<forall>r\<in>set (rows (conn st)). stored_amount (r ''min_amount'') \<and> stored_amount (r ''max_amount'')
   \<Longrightarrow> \<forall>r\<in>set (rows (conn (batch_loop L clock js st))).
         stored_amount (r ''min_amount'') \<and> stored_amount (r ''max_amount'')"
proof (induction js arbitrary: st)
  case Nil
  then show ?case by simp
next
  case (Cons j js)
  from Cons.prems have "\<forall>r\<in>set (rows (conn (insert_job L clock st j))).
      stored_amount (r ''min_amount'') \<and> stored_amount (r ''max_amount'')"
    by (rule insert_job_amounts)
  then show ?case
    unfolding batch_loop.simps by (rule Cons.IH)
qed

lemma insert_jobs_amounts:
  assumes "list_all (\<lambda>r. stored_amount (r ''min_amount'') \<and> stored_amount (r ''max_amount''))
      (rows db)"
  shows "list_all (\<lambda>r. stored_amount (r ''min_amount'') \<and> stored_amount (r ''max_amount''))
      (rows (conn (insert_jobs L clock db jobs_data)))"
proof -
  from assms have "\<forall>r\<in>set (rows (conn \<lparr>conn = db, inserted_count = 0, skipped_count = 0\<rparr>)).
      stored_amount (r ''min_amount'') \<and> stored_amount (r ''max_amount'')"
    by (simp add: list_all_iff)
  then show ?thesis
    unfolding insert_jobs_flat list_all_iff by (rule batch_loop_amounts)
qed

lemma py_float_1500: "py_float L (PInt 1500) = Inr (Fin 1500)"
  by (simp add: float_overflow_def)

text \<open>
  C4, as the code has it. For a filter value that is truthy and that \<open>float\<close> turns into
  the number \<open>s\<close>, a row matches the filter \<open>min_salary\<close> exactly when its \<open>min_amount\<close> or
  its \<open>max_amount\<close> is a number at least \<open>s\<close>, and the filter \<open>max_salary\<close> exactly when
  one of them is a number at most \<open>s\<close>; an amount that is missing satisfies neither
  comparison. A search with one of the two filters alone counts exactly these rows and
  returns only such rows, all of them when they fit on the first page; and it does
  return when the page size and the offset fit 64 bits. A row with the amounts 1000 and
  2000 matches both filters at 1500. A falsy filter value, such as the number 0,
  applies no condition: every row matches it. The amounts of the rows that \<open>insert_jobs\<close>
  writes are numbers or missing, as the statements above suppose of the rows.
\<close>

theorem search_jobs_salary_filter:
  "(truthy v \<and> py_float L v = Inr (Fin s)
      \<and> stored_amount (r ''min_amount'') \<and> stored_amount (r ''max_amount'')
    \<longrightarrow> (matches L [''min_salary'' \<mapsto> v] r
          \<longleftrightarrow> amount_at_least (r ''min_amount'') s \<or> amount_at_least (r ''max_amount'') s)
      \<and> (matches L [''max_salary'' \<mapsto> v] r
          \<longleftrightarrow> amount_at_most (r ''min_amount'') s \<or> amount_at_most (r ''max_amount'') s))
   \<and> (truthy v \<and> py_float L v = Inr (Fin s)
      \<and> list_all (\<lambda>r. stored_amount (r ''min_amount'') \<and> stored_amount (r ''max_amount''))
           (rows db)
      \<and> search_jobs L db [''min_salary'' \<mapsto> v] page per_page = Inr (jobs, total_count)
    \<longrightarrow> total_count
          = length (filter (\<lambda>r. amount_at_least (r ''min_amount'') s
                                \<or> amount_at_least (r ''max_amount'') s) (rows db))
      \<and> set jobs \<subseteq> {r \<in> set (rows db). amount_at_least (r ''min_amount'') s
                                          \<or> amount_at_least (r ''max_amount'') s}
      \<and> (page = 1 \<and> int total_count \<le> per_page
          \<longrightarrow> set jobs = {r \<in> set (rows db). amount_at_least (r ''min_amount'') s
                                            \<or> amount_at_least (r ''max_amount'') s}))
   \<and> (truthy v \<and> py_float L v = Inr (Fin s)
      \<and> list_all (\<lambda>r. stored_amount (r ''min_amount'') \<and> stored_amount (r ''max_amount''))
           (rows db)
      \<and> search_jobs L db [''max_salary'' \<mapsto> v] page per_page = Inr (jobs', total_count')
    \<longrightarrow> total_count'
          = length (filter (\<lambda>r. amount_at_most (r ''min_amount'') s
                                \<or> amount_at_most (r ''max_amount'') s) (rows db))
      \<and> set jobs' \<subseteq> {r \<in> set (rows db). amount_at_most (r ''min_amount'') s
                                           \<or> amount_at_most (r ''max_amount'') s}
      \<and> (page = 1 \<and> int total_count' \<le> per_page
          \<longrightarrow> set jobs' = {r \<in> set (rows db). amount_at_most (r ''min_amount'') s
                                             \<or> amount_at_most (r ''max_amount'') s}))
   \<and> (truthy v \<and> py_float L v = Inr (Fin s)
      \<and> - (2 ^ 63) \<le> per_page \<and> per_page < 2 ^ 63
      \<and> - (2 ^ 63) \<le> (page - 1) * per_page \<and> (page - 1) * per_page < 2 ^ 63
    \<longrightarrow> (\<exists>js n. search_jobs L db [''min_salary'' \<mapsto> v] page per_page = Inr (js, n))
      \<and> (\<exists>js n. search_jobs L db [''max_salary'' \<mapsto> v] page per_page = Inr (js, n)))
   \<and> (r ''min_amount'' = SReal 1000 \<and> r ''max_amount'' = SReal 2000
    \<longrightarrow> matches L [''min_salary'' \<mapsto> PInt 1500] r
      \<and> matches L [''max_salary'' \<mapsto> PInt 1500] r)
   \<and> (\<not> truthy v
    \<longrightarrow> matches L [''min_salary'' \<mapsto> v] r \<and> matches L [''max_salary'' \<mapsto> v] r)
   \<and> (list_all (\<lambda>r. stored_amount (r ''min_amount'') \<and> stored_amount (r ''max_amount''))
         (rows db)
    \<longrightarrow> list_all (\<lambda>r. stored_amount (r ''min_amount'') \<and> stored_amount (r ''max_amount''))
          (rows (conn (insert_jobs L clock db jobs_data))))
   \<and> list_all (\<lambda>r. stored_amount (r ''min_amount'') \<and> stored_amount (r ''max_amount''))
        (rows empty_database)"
proof (intro conjI impI)
  assume a: "truthy v \<and> py_float L v = Inr (Fin s)
      \<and> stored_amount (r ''min_amount'') \<and> stored_amount (r ''max_amount'')"
  then show "matches L [''min_salary'' \<mapsto> v] r
      \<longleftrightarrow> amount_at_least (r ''min_amount'') s \<or> amount_at_least (r ''max_amount'') s"
    by (intro matches_min_salary) simp_all
  from a show "matches L [''max_salary'' \<mapsto> v] r
      \<longleftrightarrow> amount_at_most (r ''min_amount'') s \<or> amount_at_most (r ''max_amount'') s"
    by (intro matches_max_salary) simp_all
next
  assume a: "truthy v \<and> py_float L v = Inr (Fin s)
      \<and> list_all (\<lambda>r. stored_amount (r ''min_amount'') \<and> stored_amount (r ''max_amount''))
           (rows db)
      \<and> search_jobs L db [''min_salary'' \<mapsto> v] page per_page = Inr (jobs, total_count)"
  then have m: "matches L [''min_salary'' \<mapsto> v] r
      = (amount_at_least (r ''min_amount'') s \<or> amount_at_least (r ''max_amount'') s)"
    if "r \<in> set (rows db)" for r
    using that matches_min_salary [of v L s r] by (simp add: list_all_iff)
  from a have s: "search_jobs L db [''min_salary'' \<mapsto> v] page per_page
      = Inr (jobs, total_count)"
    by simp
  note search_jobs_selects [OF s m]
  then show "total_count
          = length (filter (\<lambda>r. amount_at_least (r ''min_amount'') s
                                \<or> amount_at_least (r ''max_amount'') s) (rows db))"
    and "set jobs \<subseteq> {r \<in> set (rows db). amount_at_least (r ''min_amount'') s
                                          \<or> amount_at_least (r ''max_amount'') s}"
    and "page = 1 \<and> int total_count \<le> per_page
      \<Longrightarrow> set jobs = {r \<in> set (rows db). amount_at_least (r ''min_amount'') s
                                          \<or> amount_at_least (r ''max_amount'') s}"
    by blast+
next
  assume a: "truthy v \<and> py_float L v = Inr (Fin s)
      \<and> list_all (\<lambda>r. stored_amount (r ''min_amount'') \<and> stored_amount (r ''max_amount''))
           (rows db)
      \<and> search_jobs L db [''max_salary'' \<mapsto> v] page per_page = Inr (jobs', total_count')"
  then have m: "matches L [''max_salary'' \<mapsto> v] r
      = (amount_at_most (r ''min_amount'') s \<or> amount_at_most (r ''max_amount'') s)"
    if "r \<in> set (rows db)" for r
    using that matches_max_salary [of v L s r] by (simp add: list_all_iff)
  from a have s: "search_jobs L db [''max_salary'' \<mapsto> v] page per_page
      = Inr (jobs', total_count')"
    by simp
  note search_jobs_selects [OF s m]
  then show "total_count'
          = length (filter (\<lambda>r. amount_at_most (r ''min_amount'') s
                                \<or> amount_at_most (r ''max_amount'') s) (rows db))"
    and "set jobs' \<subseteq> {r \<in> set (rows db). amount_at_most (r ''min_amount'') s
                                           \<or> amount_at_most (r ''max_amount'') s}"
    and "page = 1 \<and> int total_count' \<le> per_page
      \<Longrightarrow> set jobs' = {r \<in> set (rows db). amount_at_most (r ''min_amount'') s
                                           \<or> amount_at_most (r ''max_amount'') s}"
    by blast+
next
  assume a: "truthy v \<and> py_float L v = Inr (Fin s)
      \<and> - (2 ^ 63) \<le> per_page \<and> per_page < 2 ^ 63
      \<and> - (2 ^ 63) \<le> (page - 1) * per_page \<and> (page - 1) * per_page < 2 ^ 63"
  then show "\<exists>js n. search_jobs L db [''min_salary'' \<mapsto> v] page per_page = Inr (js, n)"
    by (intro search_jobs_salary_returns(1) [of v L s]) simp_all
  from a show "\<exists>js n. search_jobs L db [''max_salary'' \<mapsto> v] page per_page = Inr (js, n)"
    by (intro search_jobs_salary_returns(2) [of v L s]) simp_all
next
  assume a: "r ''min_amount'' = SReal 1000 \<and> r ''max_amount'' = SReal 2000"
  then have st: "stored_amount (r ''min_amount'')" "stored_amount (r ''max_amount'')"
    by (simp_all add: stored_amount_def)
  have t: "truthy (PInt 1500)"
    by simp
  from a show "matches L [''min_salary'' \<mapsto> PInt 1500] r"
    unfolding matches_min_salary [OF t py_float_1500 st] by (simp add: amount_at_least_def)
  from a show "matches L [''max_salary'' \<mapsto> PInt 1500] r"
    unfolding matches_max_salary [OF t py_float_1500 st] by (simp add: amount_at_most_def)
next
  assume "\<not> truthy v"
  then show "matches L [''min_salary'' \<mapsto> v] r" "matches L [''max_salary'' \<mapsto> v] r"
    by (rule matches_falsy_salary)+
next
  assume "list_all (\<lambda>r. stored_amount (r ''min_amount'') \<and> stored_amount (r ''max_amount''))
      (rows db)"
  then show "list_all (\<lambda>r. stored_amount (r ''min_amount'') \<and> stored_amount (r ''max_amount''))
      (rows (conn (insert_jobs L clock db jobs_data)))"
    by (rule insert_jobs_amounts)
next
  show "list_all (\<lambda>r. stored_amount (r ''min_amount'') \<and> stored_amount (r ''max_amount''))
      (rows empty_database)"
    by (simp add: empty_database_def)
qed

theorem search_jobs_salary_filter_witness:
  "matches sample_library [''min_salary'' \<mapsto> PInt 1500] salary_row
   \<and> matches sample_library [''max_salary'' \<mapsto> PInt 1500] salary_row
   \<and> \<not> matches sample_library [''min_salary'' \<mapsto> PInt 1500] plain_row
   \<and> matches sample_library [''min_salary'' \<mapsto> PInt 0] plain_row
   \<and> (\<exists>jobs. search_jobs sample_library sample_store [''min_salary'' \<mapsto> PInt 1500] 1 20
          = Inr (jobs, 1)
        \<and> 1 = length (filter (\<lambda>r. amount_at_least (r ''min_amount'') 1500
                                  \<or> amount_at_least (r ''max_amount'') 1500)
                        (rows sample_store))
        \<and> map (\<lambda>r. r ''id'') jobs = [SInt 1])"
proof -
  have tr: "truthy (PInt 1500)" and fl: "\<not> truthy (PInt 0)"
    by simp_all
  have pf: "py_float sample_library (PInt 1500) = Inr (Fin 1500)"
    by (rule py_float_1500)
  have sal: "salary_row ''min_amount'' = SReal 1000" "salary_row ''max_amount'' = SReal 2000"
    by (simp_all add: salary_row_def row_of_def set_column_def)
  have pln: "plain_row ''min_amount'' = SNull" "plain_row ''max_amount'' = SNull"
    by (simp_all add: plain_row_def row_of_def set_column_def)
  have st: "stored_amount (plain_row ''min_amount'')" "stored_amount (plain_row ''max_amount'')"
    unfolding pln by (simp_all add: stored_amount_def)
  have no: "\<not> (amount_at_least (plain_row ''min_amount'') 1500
             \<or> amount_at_least (plain_row ''max_amount'') 1500)"
    unfolding pln by (simp add: amount_at_least_def)
  have all_stored: "list_all (\<lambda>r. stored_amount (r ''min_amount'')
      \<and> stored_amount (r ''max_amount'')) (rows sample_store)"
    by (simp add: sample_store_def sal pln stored_amount_def)
  note t1 = search_jobs_salary_filter [where L = sample_library and v = "PInt 1500"
      and s = 1500 and r = salary_row]
  note t2 = search_jobs_salary_filter [where L = sample_library and v = "PInt 1500"
      and s = 1500 and r = plain_row]
  note t3 = search_jobs_salary_filter [where L = sample_library and v = "PInt 0"
      and r = plain_row]
  from t1 sal have a: "matches sample_library [''min_salary'' \<mapsto> PInt 1500] salary_row"
    and b: "matches sample_library [''max_salary'' \<mapsto> PInt 1500] salary_row"
    by blast+
  from t2 tr pf st no
  have c: "\<not> matches sample_library [''min_salary'' \<mapsto> PInt 1500] plain_row"
    by blast
  from t3 fl have d: "matches sample_library [''min_salary'' \<mapsto> PInt 0] plain_row"
    by blast
  have n: "result_ids (search_jobs sample_library sample_store
        [''min_salary'' \<mapsto> PInt 1500] 1 20) = Inr ([SInt 1], 1)"
    by code_simp
  obtain js where k: "search_jobs sample_library sample_store
        [''min_salary'' \<mapsto> PInt 1500] 1 20 = Inr (js, 1)"
    and ids: "map (\<lambda>r. r ''id'') js = [SInt 1]"
  proof (cases "search_jobs sample_library sample_store [''min_salary'' \<mapsto> PInt 1500] 1 20")
    case (Inl e)
    with n show ?thesis
      by (simp add: result_ids_def)
  next
    case (Inr res)
    obtain js m where res: "res = (js, m)"
      by (cases res)
    with Inr n have "m = 1" "map (\<lambda>r. r ''id'') js = [SInt 1]"
      by (simp_all add: result_ids_def)
    with Inr res show ?thesis
      by (intro that [of js]) simp_all
  qed
  have cnt: "1 = length (filter (\<lambda>r. amount_at_least (r ''min_amount'') 1500
                                  \<or> amount_at_least (r ''max_amount'') 1500)
                        (rows sample_store))"
    using search_jobs_salary_filter [where L = sample_library and v = "PInt 1500"
      and s = 1500 and db = sample_store and page = 1 and per_page = 20 and jobs = js
      and total_count = 1] tr pf all_stored k
    by blast
  have e: "\<exists>jobs. search_jobs sample_library sample_store [''min_salary'' \<mapsto> PInt 1500] 1 20
          = Inr (jobs, 1)
        \<and> 1 = length (filter (\<lambda>r. amount_at_least (r ''min_amount'') 1500
                                  \<or> amount_at_least (r ''max_amount'') 1500)
                        (rows sample_store))
        \<and> map (\<lambda>r. r ''id'') jobs = [SInt 1]"
    by (intro exI [of _ js] conjI) (rule k, rule cnt, rule ids)
  show ?thesis
    by (intro conjI) (rule a, rule b, rule c, rule d, rule e)
qed

text \<open>
  The claim as stated fails for the filter value 0: the row without amounts has no
  amount that is at least 0, and a search with \<open>min_salary = 0\<close> returns it.
\<close>

theorem search_jobs_min_salary_zero_counterexample:
  "\<not> (amount_at_least (plain_row ''min_amount'') 0 \<or> amount_at_least (plain_row ''max_amount'') 0)
   \<and> (case search_jobs sample_library sample_store [''min_salary'' \<mapsto> PInt 0] 1 20 of
        Inl e \<Rightarrow> False
      | Inr (jobs, total_count) \<Rightarrow>
          total_count = 2
          \<and> map (\<lambda>r. (r ''id'', r ''min_amount'', r ''max_amount'')) jobs
              = [(SInt 2, SNull, SNull), (SInt 1, SReal 1000, SReal 2000)])"
proof -
  have "plain_row ''min_amount'' = SNull" "plain_row ''max_amount'' = SNull"
    by (simp_all add: plain_row_def row_of_def set_column_def)
  then have a: "\<not> (amount_at_least (plain_row ''min_amount'') 0
      \<or> amount_at_least (plain_row ''max_amount'') 0)"
    by (simp add: amount_at_least_def)
  have b: "case search_jobs sample_library sample_store [''min_salary'' \<mapsto> PInt 0] 1 20 of
        Inl e \<Rightarrow> False
      | Inr (jobs, total_count) \<Rightarrow>
          total_count = 2
          \<and> map (\<lambda>r. (r ''id'', r ''min_amount'', r ''max_amount'')) jobs
              = [(SInt 2, SNull, SNull), (SInt 1, SReal 1000, SReal 2000)]"
    by code_simp
  show ?thesis
    by (intro conjI) (rule a, rule b)
qed

end
